theory Spec2Isabelle
  imports Complex_Main "HOL-Library.Char_ord" "HOL-Library.List_Lexorder"
begin

section \<open>Python values, exceptions and strings\<close>

text \<open>
  The session class \<^verbatim>\<open>pyIDI\<close> of \<^verbatim>\<open>pyidi/pyidi.py\<close> is embedded with explicit state:
  every method takes the state it can touch and returns the outcome (the raised exception
  or the returned value) together with the state it leaves behind, because in Python what
  was assigned before a \<^verbatim>\<open>raise\<close> stays assigned.

  Strings are lists of characters; a character stands for a code point below 256.
\<close>

datatype exn =
    ValueError string
  | TypeError string
  | IndexError string
  | KeyError string
  | AttributeError string
  | OverflowError string
  | FileExistsError string
  | FileNotFoundError string
  | NotADirectoryError string
  | IsADirectoryError string
  | OtherError string

text \<open>A numpy array: its shape, whether its dtype is numeric, and its element buffer.\<close>

datatype ndarray = NdArray (shape: "nat list") (numeric: bool) (buffer: "nat list")

text \<open>Python data as \<^verbatim>\<open>json\<close> sees it; \<open>JOpaque\<close> is an object the encoder rejects.\<close>

datatype json =
    JNull
  | JBool bool
  | JInt int
  | JStr string
  | JList "json list"
  | JDict "(string \<times> json) list"
  | JOpaque

type_synonym kwargs = "(string \<times> json) list"

definition backslash :: char where
  "backslash = CHR 0x5C"

text \<open>\<^verbatim>\<open>s.split(c)\<close> for a one-character separator: never an empty list.\<close>

fun split_on :: "char \<Rightarrow> string \<Rightarrow> string list" where
  "split_on c [] = [[]]"
| "split_on c (x # xs) =
     (if x = c then [] # split_on c xs
      else (case split_on c xs of
              [] \<Rightarrow> [[x]]
            | w # ws \<Rightarrow> (x # w) # ws))"

text \<open>\<^verbatim>\<open>xs[i]\<close> on a list or tuple, with Python's negative indices; out of range
  raises IndexError. The messages of exceptions raised by the library are abridged.\<close>

definition item :: "'a list \<Rightarrow> int \<Rightarrow> exn + 'a" where
  "item xs i =
     (if 0 \<le> i \<and> i < int (length xs) then Inr (xs ! nat i)
      else if i < 0 \<and> - int (length xs) \<le> i then Inr (xs ! nat (int (length xs) + i))
      else Inl (IndexError ''index out of range''))"

subsection \<open>\<^verbatim>\<open>int(s)\<close> and the format \<^verbatim>\<open>0>3.0f\<close>\<close>

definition is_digit :: "char \<Rightarrow> bool" where
  "is_digit c = (CHR ''0'' \<le> c \<and> c \<le> CHR ''9'')"

definition digit_val :: "char \<Rightarrow> nat" where
  "digit_val c = of_char c - of_char CHR ''0''"

text \<open>The characters \<^verbatim>\<open>int\<close> strips from both ends (the white space below 256).\<close>

definition is_space :: "char \<Rightarrow> bool" where
  "is_space c =
     (let k = (of_char c :: nat)
      in (9 \<le> k \<and> k \<le> 13) \<or> (28 \<le> k \<and> k \<le> 32) \<or> k = 133 \<or> k = 160)"

definition strip :: "string \<Rightarrow> string" where
  "strip s = rev (dropWhile is_space (rev (dropWhile is_space s)))"

text \<open>Digits with single underscores between them, as \<^verbatim>\<open>int\<close> accepts.\<close>

fun int_digits :: "string \<Rightarrow> nat \<Rightarrow> nat option" where
  "int_digits [] acc = Some acc"
| "int_digits (c # cs) acc =
     (if is_digit c then int_digits cs (10 * acc + digit_val c)
      else if c = CHR ''_'' then
        (case cs of
           [] \<Rightarrow> None
         | d # ds \<Rightarrow> if is_digit d then int_digits cs acc else None)
      else None)"

definition unsigned_int :: "string \<Rightarrow> nat option" where
  "unsigned_int s =
     (case s of
        [] \<Rightarrow> None
      | c # cs \<Rightarrow> if is_digit c then int_digits s 0 else None)"

definition py_int :: "string \<Rightarrow> exn + int" where
  "py_int s =
     (let t = strip s;
          bad = Inl (ValueError (''invalid literal for int() with base 10: '' @ s))
      in case t of
           [] \<Rightarrow> bad
         | c # cs \<Rightarrow>
             if c = CHR ''-'' then
               (case unsigned_int cs of None \<Rightarrow> bad | Some n \<Rightarrow> Inr (- int n))
             else if c = CHR ''+'' then
               (case unsigned_int cs of None \<Rightarrow> bad | Some n \<Rightarrow> Inr (int n))
             else
               (case unsigned_int t of None \<Rightarrow> bad | Some n \<Rightarrow> Inr (int n)))"

fun nat_digits :: "nat \<Rightarrow> string" where
  "nat_digits n =
     (if n < 10 then [char_of (of_char CHR ''0'' + n)]
      else nat_digits (n div 10) @ [char_of (of_char CHR ''0'' + n mod 10)])"

fun bit_length :: "nat \<Rightarrow> nat" where
  "bit_length n = (if n = 0 then 0 else Suc (bit_length (n div 2)))"

text \<open>
  The format type \<^verbatim>\<open>f\<close> converts the integer to a double first: the nearest double,
  ties to even, and OverflowError from \<open>2 ^ 1024\<close> on. Below \<open>2 ^ 53\<close> the conversion
  is exact.
\<close>

definition float_of_nat :: "nat \<Rightarrow> nat option" where
  "float_of_nat n =
     (if bit_length n \<le> 53 then Some n
      else
        (let e = bit_length n - 53;
             q = n div 2 ^ e;
             r = n mod 2 ^ e;
             half = 2 ^ (e - 1);
             q' = (if half < r \<or> (r = half \<and> odd q) then q + 1 else q);
             v = q' * 2 ^ e
         in if v < 2 ^ 1024 then Some v else None))"

text \<open>\<^verbatim>\<open>f'{v:0>3.0f}'\<close>: no decimals, right-aligned in width 3, filled with \<^verbatim>\<open>0\<close>.\<close>

definition format_index :: "int \<Rightarrow> exn + string" where
  "format_index v =
     (case float_of_nat (nat \<bar>v\<bar>) of
        None \<Rightarrow> Inl (OverflowError ''int too large to convert to float'')
      | Some m \<Rightarrow>
          (let s = (if v < 0 then CHR ''-'' # nat_digits m else nat_digits m)
           in Inr (replicate (3 - length s) CHR ''0'' @ s)))"

declare nat_digits.simps [simp del]
declare bit_length.simps [simp del]

section \<open>Paths and the file system\<close>

text \<open>
  \<^verbatim>\<open>os.path\<close> depends on the platform. \<open>Posix\<close> is \<^verbatim>\<open>posixpath\<close>; \<open>Windows\<close> is
  \<^verbatim>\<open>ntpath\<close> on paths without a drive letter or UNC prefix, where it differs from
  \<^verbatim>\<open>posixpath\<close> only in the separators: it joins with a backslash and splits at a
  slash or a backslash.
\<close>

datatype platform = Posix | Windows

definition os_sep :: "platform \<Rightarrow> char" where
  "os_sep pl = (case pl of Posix \<Rightarrow> CHR ''/'' | Windows \<Rightarrow> backslash)"

definition is_sep :: "platform \<Rightarrow> char \<Rightarrow> bool" where
  "is_sep pl c = (c = CHR ''/'' \<or> (pl = Windows \<and> c = backslash))"

text \<open>\<^verbatim>\<open>os.path.split\<close>: the tail has no separator; the head loses its trailing
  separators unless it consists of separators only.\<close>

definition path_split :: "platform \<Rightarrow> string \<Rightarrow> string \<times> string" where
  "path_split pl p =
     (let tail = rev (takeWhile (\<lambda>c. \<not> is_sep pl c) (rev p));
          head = rev (dropWhile (\<lambda>c. \<not> is_sep pl c) (rev p))
      in (if list_all (is_sep pl) head then head
          else rev (dropWhile (is_sep pl) (rev head)),
          tail))"

text \<open>\<^verbatim>\<open>os.path.join(a, b)\<close>.\<close>

definition path_join :: "platform \<Rightarrow> string \<Rightarrow> string \<Rightarrow> string" where
  "path_join pl a b =
     (if b \<noteq> [] \<and> is_sep pl (hd b) then b
      else if a = [] \<or> is_sep pl (last a) then a @ b
      else a @ [os_sep pl] @ b)"

text \<open>
  A file system is an association list from the paths the code builds to what is there;
  its order is the order in which a directory listing reports the entries. Paths are
  compared as strings, and a relative path is relative to the working directory, which
  exists.
\<close>

datatype pyobj = ArrayObj ndarray | PointsObj "(int \<times> int) list"

datatype content =
    Pickled pyobj
  | JsonDump bool nat json
  | Partial

datatype node = Dir | File content

type_synonym filesys = "(string \<times> node) list"

definition path_exists :: "filesys \<Rightarrow> string \<Rightarrow> bool" where
  "path_exists fs p = (map_of fs p \<noteq> None)"

definition parent_check :: "platform \<Rightarrow> filesys \<Rightarrow> string \<Rightarrow> exn option" where
  "parent_check pl fs p =
     (let parent = fst (path_split pl p)
      in if list_all (is_sep pl) parent then None
         else (case map_of fs parent of
                 None \<Rightarrow> Some (FileNotFoundError p)
               | Some Dir \<Rightarrow> None
               | Some (File c) \<Rightarrow> Some (NotADirectoryError p)))"

text \<open>\<^verbatim>\<open>os.mkdir(p)\<close>.\<close>

definition mkdir :: "platform \<Rightarrow> string \<Rightarrow> filesys \<Rightarrow> exn + filesys" where
  "mkdir pl p fs =
     (if path_exists fs p then Inl (FileExistsError p)
      else (case parent_check pl fs p of
              Some e \<Rightarrow> Inl e
            | None \<Rightarrow> Inr (fs @ [(p, Dir)])))"

fun put_file :: "string \<Rightarrow> content \<Rightarrow> filesys \<Rightarrow> filesys" where
  "put_file p c [] = [(p, File c)]"
| "put_file p c ((q, n) # fs) =
     (if q = p then (p, File c) # fs else (q, n) # put_file p c fs)"

text \<open>\<^verbatim>\<open>open(p, 'w')\<close> followed by writing \<open>c\<close> and closing.\<close>

definition write_file :: "platform \<Rightarrow> string \<Rightarrow> content \<Rightarrow> filesys \<Rightarrow> exn + filesys" where
  "write_file pl p c fs =
     (case map_of fs p of
        Some Dir \<Rightarrow> Inl (IsADirectoryError p)
      | Some (File old) \<Rightarrow> Inr (put_file p c fs)
      | None \<Rightarrow>
          (case parent_check pl fs p of
             Some e \<Rightarrow> Inl e
           | None \<Rightarrow> Inr (put_file p c fs)))"

definition lower_ascii :: "char \<Rightarrow> char" where
  "lower_ascii c =
     (if CHR ''A'' \<le> c \<and> c \<le> CHR ''Z'' then char_of (of_char c + (32::nat)) else c)"

text \<open>\<^verbatim>\<open>fnmatch\<close> of a name against \<^verbatim>\<open>analysis_*\<close>; on Windows it ignores case.\<close>

definition matches_analysis :: "platform \<Rightarrow> string \<Rightarrow> bool" where
  "matches_analysis pl name =
     (take 9 (if pl = Windows then map lower_ascii name else name) = ''analysis_'')"

text \<open>
  \<^verbatim>\<open>glob.glob(os.path.join(d, 'analysis_*/'))\<close>: the directories directly in \<open>d\<close> whose
  name matches, each joined with the empty string, which appends the separator.
\<close>

definition glob_analyses :: "platform \<Rightarrow> filesys \<Rightarrow> string \<Rightarrow> string list" where
  "glob_analyses pl fs d =
     map (\<lambda>(p, n). path_join pl p [])
       (filter (\<lambda>(p, n). n = Dir \<and> p \<noteq> [] \<and> \<not> is_sep pl (last p)
                  \<and> p = path_join pl d (snd (path_split pl p))
                  \<and> matches_analysis pl (snd (path_split pl p))) fs)"

section \<open>Method plugins\<close>

text \<open>
  The plugin classes live in \<^verbatim>\<open>pyidi/methods.py\<close>, outside this file, so a class is a
  parameter: its name and docstring, what its constructor does with the keyword
  arguments, and the methods it defines (\<open>None\<close> where \<^verbatim>\<open>hasattr\<close> is false). A method
  of a plugin reads and updates the attributes of its own instance only, and what it
  does is logged as an event; when it raises, the attributes are taken as unchanged.
\<close>

record method_attrs =
  displacements_attr :: "ndarray option"
  process_number :: "int option"
  subset_size :: "int option"
  roi_size :: "int option"

record idi_class =
  cls_name :: string
  cls_doc :: string
  cls_init :: "kwargs \<Rightarrow> exn + method_attrs"
  cls_calculate_displacements :: "(kwargs \<Rightarrow> method_attrs \<Rightarrow> exn + method_attrs) option"
  cls_clear_temp_files :: "(method_attrs \<Rightarrow> exn + method_attrs) option"
  cls_create_settings_dict :: "(method_attrs \<Rightarrow> exn + json) option"
  cls_show_points :: bool

record method_obj =
  klass :: idi_class
  attrs :: method_attrs

text \<open>The classes \<^verbatim>\<open>pyidi.py\<close> imports from \<^verbatim>\<open>.methods\<close> for its registry.\<close>

record methods_module =
  SimplifiedOpticalFlow :: idi_class
  LucasKanade :: idi_class
  LucasKanadeSc :: idi_class
  LucasKanadeSc2 :: idi_class

definition available_method_shortcuts :: "methods_module \<Rightarrow> (string \<times> idi_class) list" where
  "available_method_shortcuts mm =
     [(''sof'', SimplifiedOpticalFlow mm),
      (''lk'', LucasKanade mm),
      (''lk_scipy'', LucasKanadeSc mm),
      (''lk_scipy2'', LucasKanadeSc2 mm)]"

record registry_entry =
  IDIMethod :: idi_class
  description :: string

text \<open>What \<^verbatim>\<open>set_method\<close> is given: a string, or another object, of which the code
  asks whether it is callable and which class-like capabilities it has.\<close>

datatype method_arg = MethodName string | MethodObject bool idi_class

section \<open>The session\<close>

datatype source = SrcStr string | SrcArray ndarray | SrcOther

text \<open>Attributes the code creates later are optional: \<open>None\<close> is \<^verbatim>\<open>hasattr\<close> false.
  The field \<open>method_bound\<close> is \<^verbatim>\<open>self.method\<close>.\<close>

record session =
  cih_file :: source
  root :: string
  available_methods :: "(string \<times> registry_entry) list"
  mraw :: ndarray
  info :: "(string \<times> json) list"
  N :: json
  image_width :: json
  image_height :: json
  method_name :: "string option"
  method_bound :: "method_obj option"
  points :: "(int \<times> int) list option"
  displacements :: "ndarray option"
  root_analysis :: "string option"
  root_this_analysis :: "string option"

datatype event =
    CalculateDisplacements kwargs
  | ClearTempFiles
  | CreateSettingsDict

text \<open>What a call can touch besides the session: the files, the clock (already
  formatted as \<^verbatim>\<open>createdate\<close> is) and the log of plugin calls.\<close>

record world =
  sess :: session
  files :: filesys
  clock :: string
  plugin_log :: "event list"

subsection \<open>\<^verbatim>\<open>__init__\<close>\<close>

definition dict_get :: "(string \<times> 'v) list \<Rightarrow> string \<Rightarrow> exn + 'v" where
  "dict_get d k = (case map_of d k of None \<Rightarrow> Inl (KeyError k) | Some v \<Rightarrow> Inr v)"

text \<open>\<^verbatim>\<open>dict([(key, {...}) for key, method in available_method_shortcuts])\<close>: a later
  pair with the same key replaces the value of the earlier one.\<close>

fun dict_of_pairs :: "(string \<times> 'v) list \<Rightarrow> (string \<times> 'v) list" where
  "dict_of_pairs [] = []"
| "dict_of_pairs ((k, v) # kvs) =
     (let d = dict_of_pairs kvs
      in if k \<in> fst ` set d then d else (k, v) # d)"

definition registry_of :: "methods_module \<Rightarrow> (string \<times> registry_entry) list" where
  "registry_of mm =
     rev (dict_of_pairs (rev
       (map (\<lambda>(key, m). (key, \<lparr>IDIMethod = m, description = cls_doc m\<rparr>))
         (available_method_shortcuts mm))))"

definition wrong_type_message :: string where
  "wrong_type_message =
     ''`cih_file` must be either a cih filename or a 3D array (N_time, height, width)''"

text \<open>
  \<^verbatim>\<open>pyMRAW.load_video\<close> is a parameter: it raises or returns the frames and the
  metadata. \<^verbatim>\<open>tools.update_docstring\<close> only rewrites documentation strings and has no
  counterpart here.
\<close>

definition init :: "platform \<Rightarrow> methods_module \<Rightarrow> (string \<Rightarrow> exn + ndarray \<times> (string \<times> json) list)
    \<Rightarrow> source \<Rightarrow> exn + session" where
  "init pl mm load_video cih =
     (let root0 = (case cih of SrcStr p \<Rightarrow> fst (path_split pl p) | _ \<Rightarrow> []);
          reg = registry_of mm;
          mk = (\<lambda>frames meta n w h.
                  \<lparr>cih_file = cih, root = root0, available_methods = reg, mraw = frames,
                   info = meta, N = n, image_width = w, image_height = h,
                   method_name = None, method_bound = None, points = None,
                   displacements = None, root_analysis = None,
                   root_this_analysis = None\<rparr>)
      in case cih of
           SrcStr p \<Rightarrow>
             (case load_video p of
                Inl e \<Rightarrow> Inl e
              | Inr (frames, meta) \<Rightarrow>
                  (case dict_get meta ''Total Frame'' of
                     Inl e \<Rightarrow> Inl e
                   | Inr n \<Rightarrow>
                       (case dict_get meta ''Image Width'' of
                          Inl e \<Rightarrow> Inl e
                        | Inr w \<Rightarrow>
                            (case dict_get meta ''Image Height'' of
                               Inl e \<Rightarrow> Inl e
                             | Inr h \<Rightarrow> Inr (mk frames meta n w h)))))
         | SrcArray a \<Rightarrow>
             (case item (shape a) 0 of
                Inl e \<Rightarrow> Inl e
              | Inr n \<Rightarrow>
                  (case item (shape a) 1 of
                     Inl e \<Rightarrow> Inl e
                   | Inr h \<Rightarrow>
                       (case item (shape a) 2 of
                          Inl e \<Rightarrow> Inl e
                        | Inr w \<Rightarrow> Inr (mk a [] (JInt (int n)) (JInt (int w)) (JInt (int h))))))
         | SrcOther \<Rightarrow>
             Inl (ValueError wrong_type_message))"

subsection \<open>\<^verbatim>\<open>set_method\<close>\<close>

text \<open>\<^verbatim>\<open>method(self, **kwargs)\<close>: the instance exists once the constructor has returned.\<close>

definition instantiate :: "idi_class \<Rightarrow> kwargs \<Rightarrow> exn + method_obj" where
  "instantiate c kw =
     (case cls_init c kw of
        Inl e \<Rightarrow> Inl e
      | Inr a \<Rightarrow> Inr \<lparr>klass = c, attrs = a\<rparr>)"

definition not_an_IDIMethod :: exn where
  "not_an_IDIMethod = ValueError ''The input `method` is not a valid `IDIMethod`.''"

definition no_such_method :: exn where
  "no_such_method =
     ValueError ''method must either be a valid name from `available_methods` or an `IDIMethod`.''"

text \<open>The lines after the dispatch read \<^verbatim>\<open>self.method.calculate_displacements\<close>; the
  docstring updates themselves change nothing.\<close>

definition update_docstrings :: "session \<Rightarrow> (exn + unit) \<times> session" where
  "update_docstrings s =
     (case method_bound s of
        None \<Rightarrow> (Inl (AttributeError ''method''), s)
      | Some m \<Rightarrow>
          (case cls_calculate_displacements (klass m) of
             None \<Rightarrow> (Inl (AttributeError ''calculate_displacements''), s)
           | Some f \<Rightarrow> (Inr (), s)))"

definition set_method :: "method_arg \<Rightarrow> kwargs \<Rightarrow> session \<Rightarrow> (exn + unit) \<times> session" where
  "set_method m kw s =
     (case m of
        MethodName name \<Rightarrow>
          (case map_of (available_methods s) name of
             Some entry \<Rightarrow>
               (let s1 = s\<lparr>method_name := Some name\<rparr>
                in case instantiate (IDIMethod entry) kw of
                     Inl e \<Rightarrow> (Inl e, s1)
                   | Inr obj \<Rightarrow> update_docstrings (s1\<lparr>method_bound := Some obj\<rparr>))
           | None \<Rightarrow> (Inl no_such_method, s))
      | MethodObject is_callable c \<Rightarrow>
          if is_callable \<and> cls_calculate_displacements c \<noteq> None then
            (let s1 = s\<lparr>method_name := Some ''external_method''\<rparr>
             in case instantiate c kw of
                  Inl e \<Rightarrow> (Inl not_an_IDIMethod, s1)
                | Inr obj \<Rightarrow> update_docstrings (s1\<lparr>method_bound := Some obj\<rparr>))
          else (Inl no_such_method, s))"

subsection \<open>\<^verbatim>\<open>create_analysis_directory\<close>\<close>

text \<open>\<^verbatim>\<open>if not os.path.exists(p): os.mkdir(p)\<close>.\<close>

definition ensure_dir :: "platform \<Rightarrow> string \<Rightarrow> filesys \<Rightarrow> exn + filesys" where
  "ensure_dir pl p fs = (if path_exists fs p then Inr fs else mkdir pl p fs)"

text \<open>The index of the next run, read from what \<^verbatim>\<open>glob\<close> returned.\<close>

definition last_index :: "string list \<Rightarrow> exn + int" where
  "last_index analyses =
     (if analyses \<noteq> [] then
        (case item (sort analyses) (- 1) of
           Inl e \<Rightarrow> Inl e
         | Inr last_an \<Rightarrow>
             (case item (split_on backslash last_an) (- 2) of
                Inl e \<Rightarrow> Inl e
              | Inr name \<Rightarrow>
                  (case item (split_on CHR ''_'' name) (- 1) of
                     Inl e \<Rightarrow> Inl e
                   | Inr suffix \<Rightarrow> py_int suffix)))
      else Inr 0)"

definition create_analysis_directory :: "platform \<Rightarrow> world \<Rightarrow> (exn + unit) \<times> world" where
  "create_analysis_directory pl w =
     (case cih_file (sess w) of
        SrcStr p \<Rightarrow>
          (case item (split_on CHR ''.'' (snd (path_split pl p))) 0 of
             Inl e \<Rightarrow> (Inl e, w)
           | Inr cih_file_ \<Rightarrow>
               (let ra = path_join pl (root (sess w)) (cih_file_ @ ''_pyidi_analysis'');
                    w1 = w\<lparr>sess := (sess w)\<lparr>root_analysis := Some ra\<rparr>\<rparr>
                in case ensure_dir pl ra (files w1) of
                     Inl e \<Rightarrow> (Inl e, w1)
                   | Inr fs1 \<Rightarrow>
                       (let w2 = w1\<lparr>files := fs1\<rparr>
                        in case last_index (glob_analyses pl fs1 ra) of
                             Inl e \<Rightarrow> (Inl e, w2)
                           | Inr n \<Rightarrow>
                               (case format_index (n + 1) of
                                  Inl e \<Rightarrow> (Inl e, w2)
                                | Inr nnn \<Rightarrow>
                                    (let rta = path_join pl ra (''analysis_'' @ nnn);
                                         w3 = w2\<lparr>sess := (sess w2)\<lparr>root_this_analysis := Some rta\<rparr>\<rparr>
                                     in case mkdir pl rta (files w3) of
                                          Inl e \<Rightarrow> (Inl e, w3)
                                        | Inr fs2 \<Rightarrow> (Inr (), w3\<lparr>files := fs2\<rparr>))))))
      | SrcArray a \<Rightarrow>
          (Inl (TypeError ''expected str, bytes or os.PathLike object, not ndarray''), w)
      | SrcOther \<Rightarrow>
          (Inl (TypeError ''expected str, bytes or os.PathLike object''), w))"

subsection \<open>\<^verbatim>\<open>save\<close>\<close>

fun serializable :: "json \<Rightarrow> bool" where
  "serializable JOpaque = False"
| "serializable (JList xs) = list_all serializable xs"
| "serializable (JDict kvs) = list_all serializable (map snd kvs)"
| "serializable v = True"

definition source_value :: "source \<Rightarrow> json" where
  "source_value c = (case c of SrcStr p \<Rightarrow> JStr p | _ \<Rightarrow> JOpaque)"

text \<open>\<^verbatim>\<open>self.method.create_settings_dict()\<close>, logged.\<close>

definition call_create_settings_dict :: "world \<Rightarrow> (exn + json) \<times> world" where
  "call_create_settings_dict w =
     (case method_bound (sess w) of
        None \<Rightarrow> (Inl (AttributeError ''method''), w)
      | Some m \<Rightarrow>
          (case cls_create_settings_dict (klass m) of
             None \<Rightarrow> (Inl (AttributeError ''create_settings_dict''), w)
           | Some f \<Rightarrow> (f (attrs m), w\<lparr>plugin_log := plugin_log w @ [CreateSettingsDict]\<rparr>)))"

text \<open>The dictionary \<^verbatim>\<open>out\<close>, its entries in the order the code writes them.\<close>

definition settings_out :: "session \<Rightarrow> string \<Rightarrow> json \<Rightarrow> string \<Rightarrow> (string \<times> json) list" where
  "settings_out s now settings mname =
     [(''info'', JDict (info s)),
      (''createdate'', JStr now),
      (''cih_file'', source_value (cih_file s)),
      (''settings'', settings),
      (''method'', JStr mname)]"

text \<open>\<^verbatim>\<open>json.dump(out, f, sort_keys=True, indent=2)\<close> into the file just opened: the
  encoder raises TypeError at an object it cannot encode, after part of the text.\<close>

definition json_dump_file :: "platform \<Rightarrow> string \<Rightarrow> json \<Rightarrow> filesys \<Rightarrow> (exn + unit) \<times> filesys" where
  "json_dump_file pl p v fs =
     (case write_file pl p Partial fs of
        Inl e \<Rightarrow> (Inl e, fs)
      | Inr fs1 \<Rightarrow>
          if serializable v then (Inr (), put_file p (JsonDump True 2 v) fs1)
          else (Inl (TypeError ''Object is not JSON serializable''), fs1))"

definition save :: "platform \<Rightarrow> string \<Rightarrow> world \<Rightarrow> (exn + unit) \<times> world" where
  "save pl rt w =
     (case displacements (sess w) of
        None \<Rightarrow> (Inl (AttributeError ''displacements''), w)
      | Some d \<Rightarrow>
          (case write_file pl (path_join pl rt ''results.pkl'') (Pickled (ArrayObj d)) (files w) of
             Inl e \<Rightarrow> (Inl e, w)
           | Inr fs1 \<Rightarrow>
               (let w1 = w\<lparr>files := fs1\<rparr>
                in case points (sess w1) of
                     None \<Rightarrow> (Inl (AttributeError ''points''), w1)
                   | Some pts \<Rightarrow>
                       (case write_file pl (path_join pl rt ''points.pkl'')
                               (Pickled (PointsObj pts)) (files w1) of
                          Inl e \<Rightarrow> (Inl e, w1)
                        | Inr fs2 \<Rightarrow>
                            (case call_create_settings_dict (w1\<lparr>files := fs2\<rparr>) of
                               (Inl e, w2) \<Rightarrow> (Inl e, w2)
                             | (Inr settings, w2) \<Rightarrow>
                                 (case method_name (sess w2) of
                                    None \<Rightarrow> (Inl (AttributeError ''method_name''), w2)
                                  | Some mname \<Rightarrow>
                                      (case json_dump_file pl (path_join pl rt ''settings.txt'')
                                              (JDict (settings_out (sess w2) (clock w2) settings mname))
                                              (files w2) of
                                         (Inl e, fs3) \<Rightarrow> (Inl e, w2\<lparr>files := fs3\<rparr>)
                                       | (Inr u, fs3) \<Rightarrow> (Inr (), w2\<lparr>files := fs3\<rparr>))))))))"

subsection \<open>\<^verbatim>\<open>get_displacements\<close>\<close>

text \<open>\<^verbatim>\<open>self.method.calculate_displacements(self, **kwargs)\<close>, logged.\<close>

definition call_calculate_displacements :: "kwargs \<Rightarrow> method_obj \<Rightarrow> world \<Rightarrow> (exn + unit) \<times> world" where
  "call_calculate_displacements kw m w =
     (case cls_calculate_displacements (klass m) of
        None \<Rightarrow> (Inl (AttributeError ''calculate_displacements''), w)
      | Some f \<Rightarrow>
          (let w1 = w\<lparr>plugin_log := plugin_log w @ [CalculateDisplacements kw]\<rparr>
           in case f kw (attrs m) of
                Inl e \<Rightarrow> (Inl e, w1)
              | Inr a \<Rightarrow> (Inr (), w1\<lparr>sess := (sess w1)\<lparr>method_bound := Some (m\<lparr>attrs := a\<rparr>)\<rparr>\<rparr>)))"

text \<open>\<^verbatim>\<open>self.method.clear_temp_files()\<close>, logged.\<close>

definition call_clear_temp_files :: "world \<Rightarrow> (exn + unit) \<times> world" where
  "call_clear_temp_files w =
     (case method_bound (sess w) of
        None \<Rightarrow> (Inl (AttributeError ''method''), w)
      | Some m \<Rightarrow>
          (case cls_clear_temp_files (klass m) of
             None \<Rightarrow> (Inl (AttributeError ''clear_temp_files''), w)
           | Some f \<Rightarrow>
               (let w1 = w\<lparr>plugin_log := plugin_log w @ [ClearTempFiles]\<rparr>
                in case f (attrs m) of
                     Inl e \<Rightarrow> (Inl e, w1)
                   | Inr a \<Rightarrow> (Inr (), w1\<lparr>sess := (sess w1)\<lparr>method_bound := Some (m\<lparr>attrs := a\<rparr>)\<rparr>\<rparr>))))"

text \<open>The two lines under \<^verbatim>\<open>if autosave:\<close>.\<close>

definition autosave_run :: "platform \<Rightarrow> world \<Rightarrow> (exn + unit) \<times> world" where
  "autosave_run pl w =
     (case create_analysis_directory pl w of
        (Inl e, w1) \<Rightarrow> (Inl e, w1)
      | (Inr u, w1) \<Rightarrow>
          (case root_this_analysis (sess w1) of
             None \<Rightarrow> (Inl (AttributeError ''root_this_analysis''), w1)
           | Some rta \<Rightarrow> save pl rta w1))"

text \<open>\<^verbatim>\<open>return self.displacements\<close>.\<close>

definition return_displacements :: "world \<Rightarrow> (exn + ndarray) \<times> world" where
  "return_displacements w =
     (case displacements (sess w) of
        None \<Rightarrow> (Inl (AttributeError ''displacements''), w)
      | Some d \<Rightarrow> (Inr d, w))"

definition method_not_set :: exn where
  "method_not_set =
     ValueError ''IDI method has not yet been set. Please call `set_method()` first.''"

definition get_displacements :: "platform \<Rightarrow> bool \<Rightarrow> kwargs \<Rightarrow> world \<Rightarrow> (exn + ndarray) \<times> world" where
  "get_displacements pl autosave kw w =
     (case method_bound (sess w) of
        Some m \<Rightarrow>
          (case call_calculate_displacements kw m w of
             (Inl e, w1) \<Rightarrow> (Inl e, w1)
           | (Inr u, w1) \<Rightarrow>
               (case method_bound (sess w1) of
                  None \<Rightarrow> (Inl (AttributeError ''method''), w1)
                | Some m1 \<Rightarrow>
                    (case displacements_attr (attrs m1) of
                       None \<Rightarrow> (Inl (AttributeError ''displacements''), w1)
                     | Some d \<Rightarrow>
                         (let w2 = w1\<lparr>sess := (sess w1)\<lparr>displacements := Some d\<rparr>\<rparr>
                          in case process_number (attrs m1) of
                               None \<Rightarrow> return_displacements w2
                             | Some pn \<Rightarrow>
                                 if pn = 0 then
                                   (case (if autosave then autosave_run pl w2 else (Inr (), w2)) of
                                      (Inl e, w3) \<Rightarrow> (Inl e, w3)
                                    | (Inr u, w3) \<Rightarrow>
                                        (case call_clear_temp_files w3 of
                                           (Inl e, w4) \<Rightarrow> (Inl e, w4)
                                         | (Inr u, w4) \<Rightarrow> return_displacements w4))
                                 else return_displacements w2))))
      | None \<Rightarrow> (Inl method_not_set, w))"

subsection \<open>The grid selection callback of \<^verbatim>\<open>__call__\<close>\<close>

text \<open>
  The napari viewer is reduced to the data of the layers the callback reads and
  replaces. Coordinates are rationals, which every finite float is; \<^verbatim>\<open>np.round\<close>
  rounds halves to the even neighbour. \<^verbatim>\<open>selection.get_roi_grid\<close> is a parameter.
\<close>

type_synonym coords = "(rat \<times> rat) list"

record viewer =
  points_data :: coords
  area_selection :: "coords list"
  area_deselection :: "coords list"
  roi_box :: "coords list option"

definition rint :: "rat \<Rightarrow> int" where
  "rint x =
     (let f = \<lfloor>x\<rfloor>; d = x - of_int f
      in if d < 1 / 2 then f
         else if 1 / 2 < d then f + 1
         else if even f then f else f + 1)"

definition transpose_T :: "coords \<Rightarrow> rat list \<times> rat list" where
  "transpose_T poly = (map fst poly, map snd poly)"

definition rectangle :: "rat \<Rightarrow> int \<times> int \<Rightarrow> coords" where
  "rectangle half_subset pt =
     (let r = of_int (fst pt); c = of_int (snd pt)
      in [(r - half_subset, c - half_subset),
          (r - half_subset, c + half_subset),
          (r + half_subset, c + half_subset),
          (r + half_subset, c - half_subset)])"

definition view_ROI :: "session \<Rightarrow> viewer \<Rightarrow> (exn + unit) \<times> viewer" where
  "view_ROI s v =
     (case method_bound s of
        None \<Rightarrow> (Inl (AttributeError ''method''), v)
      | Some m \<Rightarrow>
          (case (case subset_size (attrs m) of
                   Some sz \<Rightarrow> Some sz
                 | None \<Rightarrow> roi_size (attrs m)) of
             None \<Rightarrow> (Inr (), v)
           | Some sz \<Rightarrow>
               (case points s of
                  None \<Rightarrow> (Inl (AttributeError ''points''), v)
                | Some pts \<Rightarrow>
                    (Inr (), v\<lparr>roi_box := Some (map (rectangle (of_int sz / 2)) pts)\<rparr>))))"

text \<open>The points the callback selects: the rounded markers when no area is drawn, the
  grid of the first drawn area otherwise.\<close>

definition selected_points ::
  "((rat list \<times> rat list) \<Rightarrow> int \<times> int \<Rightarrow> int \<Rightarrow> (rat list \<times> rat list) \<Rightarrow> exn + (int \<times> int) list)
    \<Rightarrow> int \<Rightarrow> int \<Rightarrow> int \<Rightarrow> viewer \<Rightarrow> exn + (int \<times> int) list" where
  "selected_points get_roi_grid Horizontal_ROI_size Vertical_ROI_size Overlap_pixels v =
     (case area_selection v of
        [] \<Rightarrow> Inr (map (\<lambda>(r, c). (rint r, rint c)) (points_data v))
      | border # rest \<Rightarrow>
          get_roi_grid (transpose_T border) (Vertical_ROI_size, Horizontal_ROI_size)
            Overlap_pixels
            (case area_deselection v of
               [] \<Rightarrow> ([], [])
             | deselect # others \<Rightarrow> transpose_T deselect))"

definition widget_grid ::
  "((rat list \<times> rat list) \<Rightarrow> int \<times> int \<Rightarrow> int \<Rightarrow> (rat list \<times> rat list) \<Rightarrow> exn + (int \<times> int) list)
    \<Rightarrow> int \<Rightarrow> int \<Rightarrow> int \<Rightarrow> bool \<Rightarrow> session \<Rightarrow> viewer \<Rightarrow> (exn + unit) \<times> session \<times> viewer" where
  "widget_grid get_roi_grid Horizontal_ROI_size Vertical_ROI_size Overlap_pixels Show_ROI_box s v =
     (case selected_points get_roi_grid Horizontal_ROI_size Vertical_ROI_size Overlap_pixels v of
        Inl e \<Rightarrow> (Inl e, s, v)
      | Inr grid_points \<Rightarrow>
          (let s1 = s\<lparr>points := Some grid_points\<rparr>;
               v1 = v\<lparr>roi_box := None\<rparr>
           in case (if Show_ROI_box then view_ROI s1 v1 else (Inr (), v1)) of
                (Inl e, v2) \<Rightarrow> (Inl e, s1, v2)
              | (Inr u, v2) \<Rightarrow>
                  (let v3 = v2\<lparr>points_data := map (\<lambda>(r, c). (of_int r, of_int c)) grid_points\<rparr>
                   in if length grid_points = 0 then (Inr (), s1\<lparr>points := None\<rparr>, v3)
                      else (Inr (), s1, v3))))"

section \<open>Example inputs\<close>

text \<open>A plugin class that computes an all-zero result for two points and fifty frames;
  its constructor accepts no keyword argument, as \<^verbatim>\<open>configure\<close> rejects unknown ones.\<close>

definition zeros :: ndarray where
  "zeros = NdArray [2, 50, 2] True (replicate 200 0)"

definition stub_class :: "string \<Rightarrow> int option \<Rightarrow> idi_class" where
  "stub_class name rank =
     \<lparr>cls_name = name,
      cls_doc = ''A stub method.'',
      cls_init = (\<lambda>kw. if kw = []
         then Inr \<lparr>displacements_attr = None, process_number = rank,
                   subset_size = None, roi_size = None\<rparr>
         else Inl (TypeError ''configure() got an unexpected keyword argument'')),
      cls_calculate_displacements = Some (\<lambda>kw a. Inr (a\<lparr>displacements_attr := Some zeros\<rparr>)),
      cls_clear_temp_files = Some (\<lambda>a. Inr a),
      cls_create_settings_dict = Some (\<lambda>a. Inr (JDict [])),
      cls_show_points = False\<rparr>"

definition example_methods :: methods_module where
  "example_methods =
     \<lparr>SimplifiedOpticalFlow = stub_class ''SimplifiedOpticalFlow'' None,
      LucasKanade = stub_class ''LucasKanade'' (Some 0),
      LucasKanadeSc = stub_class ''LucasKanadeSc'' (Some 0),
      LucasKanadeSc2 = stub_class ''LucasKanadeSc2'' (Some 1)\<rparr>"

text \<open>A class with the capability whose constructor always raises.\<close>

definition broken_class :: idi_class where
  "broken_class = (stub_class ''Broken'' None)\<lparr>cls_init := (\<lambda>kw. Inl (OtherError ''boom''))\<rparr>"

definition example_loader :: "string \<Rightarrow> exn + ndarray \<times> (string \<times> json) list" where
  "example_loader p =
     Inr (NdArray [50, 64, 64] True [],
          [(''Total Frame'', JInt 50), (''Image Width'', JInt 64), (''Image Height'', JInt 64)])"

text \<open>A session as \<^verbatim>\<open>pyIDI('video.cih')\<close> leaves it, and one over an in-memory array.\<close>

definition file_session :: session where
  "file_session =
     \<lparr>cih_file = SrcStr ''video.cih'', root = [],
      available_methods = registry_of example_methods,
      mraw = NdArray [50, 64, 64] True [],
      info = [(''Total Frame'', JInt 50), (''Image Width'', JInt 64), (''Image Height'', JInt 64)],
      N = JInt 50, image_width = JInt 64, image_height = JInt 64,
      method_name = None, method_bound = None, points = None,
      displacements = None, root_analysis = None, root_this_analysis = None\<rparr>"

definition array_session :: session where
  "array_session =
     \<lparr>cih_file = SrcArray (NdArray [50, 64, 64] True []), root = [],
      available_methods = registry_of example_methods,
      mraw = NdArray [50, 64, 64] True [],
      info = [],
      N = JInt 50, image_width = JInt 64, image_height = JInt 64,
      method_name = None, method_bound = None, points = None,
      displacements = None, root_analysis = None, root_this_analysis = None\<rparr>"

definition world_of :: "session \<Rightarrow> world" where
  "world_of s = \<lparr>sess = s, files = [], clock = ''2020 01 01    00:00:00'', plugin_log = []\<rparr>"

text \<open>
  The code has one exception class for every misuse it reports itself, \<^verbatim>\<open>ValueError\<close>;
  the error kinds of the specification (invalid input, invalid method, method not set)
  are all read as it.
\<close>

definition is_ValueError :: "exn \<Rightarrow> bool" where
  "is_ValueError e = (case e of ValueError msg \<Rightarrow> True | _ \<Rightarrow> False)"

text \<open>A class without the capability, and the file session after \<^verbatim>\<open>set_method('sof')\<close>.\<close>

definition incapable_class :: idi_class where
  "incapable_class = (stub_class ''Incapable'' None)\<lparr>cls_calculate_displacements := None\<rparr>"

definition sof_session :: session where
  "sof_session = snd (set_method (MethodName ''sof'') [] file_session)"

text \<open>A viewer in which nothing is drawn or placed, and a grid generator that finds no
  point.\<close>

definition empty_viewer :: viewer where
  "empty_viewer = \<lparr>points_data = [], area_selection = [], area_deselection = [], roi_box = None\<rparr>"

definition no_grid ::
  "(rat list \<times> rat list) \<Rightarrow> int \<times> int \<Rightarrow> int \<Rightarrow> (rat list \<times> rat list) \<Rightarrow> exn + (int \<times> int) list" where
  "no_grid border roi noverlap deselect = Inr []"

text \<open>The instances the stub classes construct, two tracked points, and sessions bound
  to \<^verbatim>\<open>'lk'\<close> with these points set.\<close>

definition sof_plugin :: method_obj where
  "sof_plugin = \<lparr>klass = stub_class ''SimplifiedOpticalFlow'' None,
      attrs = \<lparr>displacements_attr = None, process_number = None,
                subset_size = None, roi_size = None\<rparr>\<rparr>"

definition lk_plugin :: method_obj where
  "lk_plugin = \<lparr>klass = stub_class ''LucasKanade'' (Some 0),
      attrs = \<lparr>displacements_attr = None, process_number = Some 0,
                subset_size = None, roi_size = None\<rparr>\<rparr>"

definition two_points :: "(int \<times> int) list" where
  "two_points = [(10, 10), (20, 20)]"

definition array_lk_session :: session where
  "array_lk_session =
     (snd (set_method (MethodName ''lk'') [] array_session))\<lparr>points := Some two_points\<rparr>"

definition file_lk_session :: session where
  "file_lk_session =
     (snd (set_method (MethodName ''lk'') [] file_session))\<lparr>points := Some two_points\<rparr>"

text \<open>The session bound to \<^verbatim>\<open>'lk'\<close> after a later \<^verbatim>\<open>set_method('sof', foo=1)\<close>,
  whose constructor rejects the keyword argument.\<close>

definition stale_session :: session where
  "stale_session = snd (set_method (MethodName ''sof'') [(''foo'', JInt 1)] file_lk_session)"

text \<open>The world after running \<^verbatim>\<open>create_analysis_directory\<close> \<open>n\<close> times.\<close>

fun runs :: "platform \<Rightarrow> nat \<Rightarrow> world \<Rightarrow> world" where
  "runs pl 0 w = w"
| "runs pl (Suc n) w = snd (create_analysis_directory pl (runs pl n w))"

text \<open>Names for stating what a run leaves: the files once the analysis root is there,
  and the path of the run directory with suffix \<open>nnn\<close>.\<close>

definition with_root :: "filesys \<Rightarrow> string \<Rightarrow> filesys" where
  "with_root fs ra = (if path_exists fs ra then fs else fs @ [(ra, Dir)])"

definition run_path :: "platform \<Rightarrow> string \<Rightarrow> string \<Rightarrow> string" where
  "run_path pl ra nnn = path_join pl ra (''analysis_'' @ nnn)"

text \<open>The session's analysis root on Windows, already holding the run directories
  named.\<close>

definition windows_world :: "string list \<Rightarrow> world" where
  "windows_world names =
     (world_of file_session)\<lparr>files :=
        (''video_pyidi_analysis'', Dir)
        # map (\<lambda>name. (''video_pyidi_analysis'' @ [backslash] @ name, Dir)) names\<rparr>"

section \<open>The example inputs are what the code builds\<close>

lemma registry_example:
  "registry_of example_methods =
     [(''sof'', \<lparr>IDIMethod = stub_class ''SimplifiedOpticalFlow'' None, description = ''A stub method.''\<rparr>),
      (''lk'', \<lparr>IDIMethod = stub_class ''LucasKanade'' (Some 0), description = ''A stub method.''\<rparr>),
      (''lk_scipy'', \<lparr>IDIMethod = stub_class ''LucasKanadeSc'' (Some 0), description = ''A stub method.''\<rparr>),
      (''lk_scipy2'', \<lparr>IDIMethod = stub_class ''LucasKanadeSc2'' (Some 1), description = ''A stub method.''\<rparr>)]"
  by (simp add: registry_of_def available_method_shortcuts_def example_methods_def stub_class_def)

lemma init_file:
  "init pl example_methods example_loader (SrcStr ''video.cih'') = Inr file_session"
  by (cases pl)
    (simp_all add: init_def example_loader_def file_session_def dict_get_def path_split_def
      is_sep_def backslash_def)

lemma init_array:
  "init pl example_methods example_loader (SrcArray (NdArray [50, 64, 64] True [])) = Inr array_session"
  by (simp add: init_def array_session_def item_def)

section \<open>Displacement computation without a bound method\<close>

text \<open>
  C4. On a session without a bound plugin, \<^verbatim>\<open>get_displacements\<close> raises the
  \<^verbatim>\<open>ValueError\<close> that says the method has not been set, whatever \<^verbatim>\<open>autosave\<close> and
  the keyword arguments are, and changes nothing.
\<close>

theorem method_not_set_raises:
  "method_bound (sess w) = None \<Longrightarrow>
     get_displacements pl autosave kw w = (Inl method_not_set, w) \<and> is_ValueError method_not_set"
  by (simp add: get_displacements_def is_ValueError_def method_not_set_def)

theorem method_not_set_raises_witness:
  "method_bound (sess (world_of file_session)) = None
   \<and> get_displacements Posix True [] (world_of file_session) = (Inl method_not_set, world_of file_session)
   \<and> is_ValueError method_not_set"
  using method_not_set_raises [of "world_of file_session" Posix True "[]"]
  by (simp add: world_of_def file_session_def)

section \<open>Binding a method\<close>

lemma map_of_None_iff: "(map_of xs k = None) = (k \<notin> fst ` set xs)"
  by (simp add: map_of_eq_None_iff)

lemma lk_class: "LucasKanade example_methods = stub_class ''LucasKanade'' (Some 0)"
  by (simp add: example_methods_def)

lemma sof_session_eq:
  "sof_session = file_session\<lparr>method_name := Some ''sof'',
      method_bound := Some \<lparr>klass = stub_class ''SimplifiedOpticalFlow'' None,
         attrs = \<lparr>displacements_attr = None, process_number = None,
                   subset_size = None, roi_size = None\<rparr>\<rparr>\<rparr>"
  by (simp add: sof_session_def set_method_def file_session_def registry_example instantiate_def
      update_docstrings_def stub_class_def)

text \<open>
  C5. An object without \<^verbatim>\<open>calculate_displacements\<close>, callable or not, and a string that
  is not a key of the registry both reach the final \<^verbatim>\<open>else\<close> of \<^verbatim>\<open>set_method\<close>, which
  raises the \<^verbatim>\<open>ValueError\<close> for an invalid method and leaves the session as it was.
\<close>

theorem binding_rejects_invalid:
  "(cls_calculate_displacements c = None \<longrightarrow>
      set_method (MethodObject is_callable c) kw s = (Inl no_such_method, s))
   \<and> (name \<notin> fst ` set (available_methods s) \<longrightarrow>
      set_method (MethodName name) kw s = (Inl no_such_method, s))
   \<and> is_ValueError no_such_method"
  by (simp add: set_method_def is_ValueError_def no_such_method_def map_of_None_iff [symmetric])

theorem binding_rejects_invalid_witness:
  "cls_calculate_displacements incapable_class = None
   \<and> set_method (MethodObject True incapable_class) [] file_session = (Inl no_such_method, file_session)
   \<and> ''gb'' \<notin> fst ` set (available_methods file_session)
   \<and> set_method (MethodName ''gb'') [] file_session = (Inl no_such_method, file_session)
   \<and> is_ValueError no_such_method"
proof -
  have a: "cls_calculate_displacements incapable_class = None"
    by (simp add: incapable_class_def)
  have b: "''gb'' \<notin> fst ` set (available_methods file_session)"
    by (simp add: file_session_def registry_example)
  show ?thesis
    using a b binding_rejects_invalid [of incapable_class True "[]" file_session "''gb''"]
    by simp
qed

text \<open>
  C3, as the code has it. Only the branch for a supplied object wraps the constructor in
  \<^verbatim>\<open>try\<close>: there a raising constructor ends in the \<^verbatim>\<open>ValueError\<close> for an invalid
  method. In the branch for a registered name the constructor's own exception reaches
  the caller unchanged. In both, \<^verbatim>\<open>self.method\<close> is not assigned, so the caller never
  sees the plugin whose construction failed.
\<close>

theorem constructor_failure_by_branch:
  "(is_callable \<and> cls_calculate_displacements c \<noteq> None \<and> cls_init c kw = Inl e \<longrightarrow>
      fst (set_method (MethodObject is_callable c) kw s) = Inl not_an_IDIMethod
      \<and> method_bound (snd (set_method (MethodObject is_callable c) kw s)) = method_bound s)
   \<and> (map_of (available_methods s) name = Some entry \<and> cls_init (IDIMethod entry) kw = Inl e \<longrightarrow>
      fst (set_method (MethodName name) kw s) = Inl e
      \<and> method_bound (snd (set_method (MethodName name) kw s)) = method_bound s)
   \<and> is_ValueError not_an_IDIMethod"
  by (simp add: set_method_def instantiate_def is_ValueError_def not_an_IDIMethod_def)

theorem constructor_failure_by_branch_witness:
  "cls_calculate_displacements broken_class \<noteq> None
   \<and> cls_init broken_class [] = Inl (OtherError ''boom'')
   \<and> fst (set_method (MethodObject True broken_class) [] sof_session) = Inl not_an_IDIMethod
   \<and> method_bound (snd (set_method (MethodObject True broken_class) [] sof_session))
        = method_bound sof_session
   \<and> map_of (available_methods sof_session) ''lk''
        = Some \<lparr>IDIMethod = stub_class ''LucasKanade'' (Some 0), description = ''A stub method.''\<rparr>
   \<and> cls_init (stub_class ''LucasKanade'' (Some 0)) [(''foo'', JInt 1)]
        = Inl (TypeError ''configure() got an unexpected keyword argument'')
   \<and> fst (set_method (MethodName ''lk'') [(''foo'', JInt 1)] sof_session)
        = Inl (TypeError ''configure() got an unexpected keyword argument'')
   \<and> method_bound (snd (set_method (MethodName ''lk'') [(''foo'', JInt 1)] sof_session))
        = method_bound sof_session"
proof -
  have a: "cls_calculate_displacements broken_class \<noteq> None"
    and b: "cls_init broken_class [] = Inl (OtherError ''boom'')"
    by (simp_all add: broken_class_def stub_class_def)
  have c: "map_of (available_methods sof_session) ''lk''
        = Some \<lparr>IDIMethod = stub_class ''LucasKanade'' (Some 0), description = ''A stub method.''\<rparr>"
    by (simp add: sof_session_eq file_session_def registry_example)
  have d: "cls_init (stub_class ''LucasKanade'' (Some 0)) [(''foo'', JInt 1)]
        = Inl (TypeError ''configure() got an unexpected keyword argument'')"
    by (simp add: stub_class_def)
  show ?thesis
    using a b c d
      constructor_failure_by_branch [of True broken_class "[]" "OtherError ''boom''" sof_session]
      constructor_failure_by_branch [of _ _ "[(''foo'', JInt 1)]"
        "TypeError ''configure() got an unexpected keyword argument''" sof_session "''lk''"
        "\<lparr>IDIMethod = stub_class ''LucasKanade'' (Some 0), description = ''A stub method.''\<rparr>"]
    by simp
qed

text \<open>
  C3 as stated fails for a registered name: \<^verbatim>\<open>set_method('lk', foo=1)\<close>, whose
  constructor rejects the keyword argument with \<^verbatim>\<open>TypeError\<close>, raises that
  \<^verbatim>\<open>TypeError\<close>, which is not a \<^verbatim>\<open>ValueError\<close>.
\<close>

theorem registered_constructor_error_counterexample:
  "map_of (available_methods file_session) ''lk''
        = Some \<lparr>IDIMethod = LucasKanade example_methods, description = ''A stub method.''\<rparr>
   \<and> cls_init (LucasKanade example_methods) [(''foo'', JInt 1)]
        = Inl (TypeError ''configure() got an unexpected keyword argument'')
   \<and> fst (set_method (MethodName ''lk'') [(''foo'', JInt 1)] file_session)
        = Inl (TypeError ''configure() got an unexpected keyword argument'')
   \<and> \<not> is_ValueError (TypeError ''configure() got an unexpected keyword argument'')"
proof -
  have a: "map_of (available_methods file_session) ''lk''
        = Some \<lparr>IDIMethod = LucasKanade example_methods, description = ''A stub method.''\<rparr>"
    by (simp add: file_session_def registry_example lk_class)
  have b: "cls_init (LucasKanade example_methods) [(''foo'', JInt 1)]
        = Inl (TypeError ''configure() got an unexpected keyword argument'')"
    by (simp add: lk_class stub_class_def)
  have c: "fst (set_method (MethodName ''lk'') [(''foo'', JInt 1)] file_session)
        = Inl (TypeError ''configure() got an unexpected keyword argument'')"
    by (simp add: set_method_def a b instantiate_def)
  show ?thesis
    using a b c by (simp add: is_ValueError_def)
qed

text \<open>
  C10. In each of the three ways \<^verbatim>\<open>set_method\<close> fails on its argument, \<^verbatim>\<open>self.method\<close>
  keeps its value. An unregistered name and an object that is not callable or lacks the
  capability leave the whole session unchanged; a raising constructor, of a registered
  class or of a supplied one, leaves a session that differs in \<^verbatim>\<open>method_name\<close> only,
  which is already the new name or \<^verbatim>\<open>external_method\<close>.
\<close>

theorem failed_binding_keeps_method:
  "(name \<notin> fst ` set (available_methods s) \<longrightarrow>
      set_method (MethodName name) kw s = (Inl no_such_method, s))
   \<and> (\<not> is_callable \<or> cls_calculate_displacements c = None \<longrightarrow>
      set_method (MethodObject is_callable c) kw s = (Inl no_such_method, s))
   \<and> (map_of (available_methods s) name = Some entry \<and> cls_init (IDIMethod entry) kw = Inl e \<longrightarrow>
      set_method (MethodName name) kw s = (Inl e, s\<lparr>method_name := Some name\<rparr>)
      \<and> method_bound (s\<lparr>method_name := Some name\<rparr>) = method_bound s)
   \<and> (is_callable \<and> cls_calculate_displacements c \<noteq> None \<and> cls_init c kw = Inl e \<longrightarrow>
      set_method (MethodObject is_callable c) kw s
        = (Inl not_an_IDIMethod, s\<lparr>method_name := Some ''external_method''\<rparr>)
      \<and> method_bound (s\<lparr>method_name := Some ''external_method''\<rparr>) = method_bound s)"
  by (auto simp add: set_method_def instantiate_def map_of_None_iff [symmetric])

theorem failed_binding_keeps_method_witness:
  "cls_calculate_displacements broken_class \<noteq> None
   \<and> cls_init broken_class [] = Inl (OtherError ''boom'')
   \<and> set_method (MethodObject True broken_class) [] sof_session
        = (Inl not_an_IDIMethod, sof_session\<lparr>method_name := Some ''external_method''\<rparr>)
   \<and> method_bound (sof_session\<lparr>method_name := Some ''external_method''\<rparr>) = method_bound sof_session
   \<and> method_name sof_session = Some ''sof''
   \<and> ''gb'' \<notin> fst ` set (available_methods sof_session)
   \<and> set_method (MethodName ''gb'') [] sof_session = (Inl no_such_method, sof_session)
   \<and> set_method (MethodObject False broken_class) [] sof_session = (Inl no_such_method, sof_session)"
proof -
  have a: "cls_calculate_displacements broken_class \<noteq> None"
    and b: "cls_init broken_class [] = Inl (OtherError ''boom'')"
    by (simp_all add: broken_class_def stub_class_def)
  have c: "''gb'' \<notin> fst ` set (available_methods sof_session)"
    and d: "method_name sof_session = Some ''sof''"
    by (simp_all add: sof_session_eq file_session_def registry_example)
  show ?thesis
    using a b c d
      failed_binding_keeps_method [of "''gb''" sof_session "[]" True broken_class _ "OtherError ''boom''"]
      failed_binding_keeps_method [of "''gb''" sof_session "[]" False broken_class]
    by simp
qed

section \<open>Constructing a session\<close>

text \<open>
  C7, as the code has it. \<^verbatim>\<open>__init__\<close> decides by the type of its argument alone. An
  argument that is neither a \<^verbatim>\<open>str\<close> nor an \<^verbatim>\<open>ndarray\<close> raises \<^verbatim>\<open>ValueError\<close>. An
  array with at least three dimensions, of any dtype, is accepted, and the frame count,
  height and width are the first three entries of its shape. An array with fewer
  dimensions fails at the shape index, with \<^verbatim>\<open>IndexError\<close>.
\<close>

theorem init_by_input_type:
  "init pl mm load_video SrcOther = Inl (ValueError wrong_type_message)
   \<and> (3 \<le> length (shape a) \<longrightarrow>
        (\<exists>s. init pl mm load_video (SrcArray a) = Inr s
           \<and> N s = JInt (int (shape a ! 0))
           \<and> image_height s = JInt (int (shape a ! 1))
           \<and> image_width s = JInt (int (shape a ! 2))
           \<and> mraw s = a \<and> cih_file s = SrcArray a))
   \<and> (length (shape a) < 3 \<longrightarrow>
        init pl mm load_video (SrcArray a) = Inl (IndexError ''index out of range''))"
  by (auto simp add: init_def item_def)

theorem init_by_input_type_witness:
  "init Posix example_methods example_loader SrcOther = Inl (ValueError wrong_type_message)
   \<and> (\<exists>s. init Posix example_methods example_loader (SrcArray (NdArray [50, 64, 64] True [])) = Inr s
           \<and> N s = JInt 50 \<and> image_height s = JInt 64 \<and> image_width s = JInt 64)
   \<and> init Posix example_methods example_loader (SrcArray (NdArray [3, 4] True []))
        = Inl (IndexError ''index out of range'')"
  using init_by_input_type [of Posix example_methods example_loader "NdArray [50, 64, 64] True []"]
    init_by_input_type [of Posix example_methods example_loader "NdArray [3, 4] True []"]
  by auto

text \<open>
  C7 as stated fails on arrays that are not numeric 3-D arrays: a 4-D array and a
  non-numeric 3-D array are accepted, and a 2-D array raises \<^verbatim>\<open>IndexError\<close>, which is
  not a \<^verbatim>\<open>ValueError\<close>.
\<close>

theorem init_shape_counterexample:
  "\<not> isl (init Posix example_methods example_loader (SrcArray (NdArray [2, 3, 4, 5] True [])))
   \<and> \<not> isl (init Posix example_methods example_loader (SrcArray (NdArray [2, 3, 4] False [])))
   \<and> init Posix example_methods example_loader (SrcArray (NdArray [3, 4] True []))
        = Inl (IndexError ''index out of range'')
   \<and> \<not> is_ValueError (IndexError ''index out of range'')"
  by (simp add: init_def item_def is_ValueError_def)

section \<open>Grid selection\<close>

text \<open>
  C8. When the callback selects no point and runs to its end, the session it leaves has
  no \<^verbatim>\<open>points\<close> attribute, and differs from the session before in nothing else.
\<close>

theorem empty_selection_leaves_no_points:
  "selected_points g h v ov vw = Inr [] \<Longrightarrow>
   widget_grid g h v ov show_roi s vw = (Inr u, s', vw') \<Longrightarrow>
   points s' = None \<and> s' = s\<lparr>points := None\<rparr>"
  by (auto simp add: widget_grid_def Let_def split: if_splits prod.splits sum.splits)

theorem empty_selection_leaves_no_points_witness:
  "selected_points no_grid 5 5 0 empty_viewer = Inr []
   \<and> widget_grid no_grid 5 5 0 False file_session empty_viewer
        = (Inr (), file_session\<lparr>points := None\<rparr>, empty_viewer)
   \<and> points (file_session\<lparr>points := None\<rparr>) = None"
proof -
  have a: "selected_points no_grid 5 5 0 empty_viewer = Inr []"
    by (simp add: selected_points_def empty_viewer_def)
  have b: "widget_grid no_grid 5 5 0 False file_session empty_viewer
        = (Inr (), file_session\<lparr>points := None\<rparr>, empty_viewer)"
    unfolding widget_grid_def a by (simp add: empty_viewer_def)
  show ?thesis
    using a b empty_selection_leaves_no_points [OF a b] by simp
qed

section \<open>Displacement computation and the rank\<close>

lemma sof_session_plugin:
  "sof_session = file_session\<lparr>method_name := Some ''sof'', method_bound := Some sof_plugin\<rparr>"
  by (simp add: sof_session_eq sof_plugin_def)

lemma array_lk_session_eq:
  "array_lk_session = array_session\<lparr>method_name := Some ''lk'', method_bound := Some lk_plugin,
     points := Some two_points\<rparr>"
  by (simp add: array_lk_session_def set_method_def array_session_def registry_example
      instantiate_def update_docstrings_def stub_class_def lk_plugin_def)

lemma file_lk_session_eq:
  "file_lk_session = file_session\<lparr>method_name := Some ''lk'', method_bound := Some lk_plugin,
     points := Some two_points\<rparr>"
  by (simp add: file_lk_session_def set_method_def file_session_def registry_example
      instantiate_def update_docstrings_def stub_class_def lk_plugin_def)

text \<open>The outcomes of \<^verbatim>\<open>get_displacements\<close> that never reach the rank test or pass it
  by: in each, the files are those before and the log gains the computation only.\<close>

lemma calc_missing:
  "method_bound (sess w) = Some m \<Longrightarrow> cls_calculate_displacements (klass m) = None \<Longrightarrow>
   get_displacements pl autosave kw w = (Inl (AttributeError ''calculate_displacements''), w)"
  by (simp add: get_displacements_def call_calculate_displacements_def)

lemma calc_raises:
  "method_bound (sess w) = Some m \<Longrightarrow> cls_calculate_displacements (klass m) = Some f \<Longrightarrow>
   f kw (attrs m) = Inl e \<Longrightarrow>
   get_displacements pl autosave kw w
     = (Inl e, w\<lparr>plugin_log := plugin_log w @ [CalculateDisplacements kw]\<rparr>)"
  by (simp add: get_displacements_def call_calculate_displacements_def)

lemma calc_sets_nothing:
  "method_bound (sess w) = Some m \<Longrightarrow> cls_calculate_displacements (klass m) = Some f \<Longrightarrow>
   f kw (attrs m) = Inr a \<Longrightarrow> displacements_attr a = None \<Longrightarrow>
   get_displacements pl autosave kw w
     = (Inl (AttributeError ''displacements''),
        w\<lparr>sess := (sess w)\<lparr>method_bound := Some (m\<lparr>attrs := a\<rparr>)\<rparr>,
          plugin_log := plugin_log w @ [CalculateDisplacements kw]\<rparr>)"
  by (simp add: get_displacements_def call_calculate_displacements_def)

lemma calc_without_rank:
  "method_bound (sess w) = Some m \<Longrightarrow> cls_calculate_displacements (klass m) = Some f \<Longrightarrow>
   f kw (attrs m) = Inr a \<Longrightarrow> displacements_attr a = Some d \<Longrightarrow> process_number a = None \<Longrightarrow>
   get_displacements pl autosave kw w
     = (Inr d,
        w\<lparr>sess := (sess w)\<lparr>method_bound := Some (m\<lparr>attrs := a\<rparr>), displacements := Some d\<rparr>,
          plugin_log := plugin_log w @ [CalculateDisplacements kw]\<rparr>)"
  by (simp add: get_displacements_def call_calculate_displacements_def return_displacements_def)

lemma calc_other_rank:
  "method_bound (sess w) = Some m \<Longrightarrow> cls_calculate_displacements (klass m) = Some f \<Longrightarrow>
   f kw (attrs m) = Inr a \<Longrightarrow> displacements_attr a = Some d \<Longrightarrow> process_number a = Some pn \<Longrightarrow>
   pn \<noteq> 0 \<Longrightarrow>
   get_displacements pl autosave kw w
     = (Inr d,
        w\<lparr>sess := (sess w)\<lparr>method_bound := Some (m\<lparr>attrs := a\<rparr>), displacements := Some d\<rparr>,
          plugin_log := plugin_log w @ [CalculateDisplacements kw]\<rparr>)"
  by (simp add: get_displacements_def call_calculate_displacements_def return_displacements_def)

text \<open>
  C9. The code tests \<^verbatim>\<open>hasattr(self.method, 'process_number')\<close> after the computation.
  For a bound plugin that exposes no \<^verbatim>\<open>process_number\<close> then, \<^verbatim>\<open>get_displacements\<close>
  with \<^verbatim>\<open>autosave=True\<close> leaves the files as they were and adds to the log of plugin
  calls the computation alone, so \<^verbatim>\<open>clear_temp_files\<close> is not called; and when the
  computation returns with \<^verbatim>\<open>displacements\<close> set, that array is returned and the session
  differs in its \<^verbatim>\<open>displacements\<close> attribute only (the plugin's own attributes are what
  the computation made them).
\<close>

theorem no_rank_no_persistence:
  assumes bound: "method_bound (sess w) = Some m"
    and norank: "\<forall>f a. cls_calculate_displacements (klass m) = Some f \<longrightarrow>
                   f kw (attrs m) = Inr a \<longrightarrow> process_number a = None"
  shows "files (snd (get_displacements pl True kw w)) = files w
    \<and> plugin_log (snd (get_displacements pl True kw w))
        = plugin_log w @ (case cls_calculate_displacements (klass m) of
                            None \<Rightarrow> [] | Some f \<Rightarrow> [CalculateDisplacements kw])
    \<and> (\<forall>f a d. cls_calculate_displacements (klass m) = Some f \<longrightarrow> f kw (attrs m) = Inr a \<longrightarrow>
          displacements_attr a = Some d \<longrightarrow>
          get_displacements pl True kw w
            = (Inr d,
               w\<lparr>sess := (sess w)\<lparr>method_bound := Some (m\<lparr>attrs := a\<rparr>), displacements := Some d\<rparr>,
                 plugin_log := plugin_log w @ [CalculateDisplacements kw]\<rparr>))"
proof (cases "cls_calculate_displacements (klass m)")
  case None
  then show ?thesis using calc_missing [OF bound None] by simp
next
  case (Some f)
  note has_calc = this
  show ?thesis
  proof (cases "f kw (attrs m)")
    case (Inl e)
    then show ?thesis using calc_raises [OF bound has_calc Inl] has_calc by simp
  next
    case (Inr a)
    have nr: "process_number a = None" using norank has_calc Inr by blast
    show ?thesis
    proof (cases "displacements_attr a")
      case None
      then show ?thesis using calc_sets_nothing [OF bound has_calc Inr None] has_calc Inr by simp
    next
      case (Some d)
      then show ?thesis
        using calc_without_rank [OF bound has_calc Inr Some nr] has_calc Inr by simp
    qed
  qed
qed

theorem no_rank_no_persistence_witness:
  "method_bound (sess (world_of sof_session)) = Some sof_plugin
   \<and> process_number (attrs sof_plugin) = None
   \<and> get_displacements Posix True [] (world_of sof_session)
       = (Inr zeros,
          (world_of sof_session)\<lparr>sess := sof_session\<lparr>method_bound :=
                Some (sof_plugin\<lparr>attrs := (attrs sof_plugin)\<lparr>displacements_attr := Some zeros\<rparr>\<rparr>),
              displacements := Some zeros\<rparr>,
            plugin_log := [CalculateDisplacements []]\<rparr>)
   \<and> files (snd (get_displacements Posix True [] (world_of sof_session))) = []
   \<and> plugin_log (snd (get_displacements Posix True [] (world_of sof_session)))
       = [CalculateDisplacements []]"
proof -
  have a: "method_bound (sess (world_of sof_session)) = Some sof_plugin"
    by (simp add: world_of_def sof_session_plugin)
  have b: "cls_calculate_displacements (klass sof_plugin)
             = Some (\<lambda>kw a. Inr (a\<lparr>displacements_attr := Some zeros\<rparr>))"
    by (simp add: sof_plugin_def stub_class_def)
  have d: "process_number (attrs sof_plugin) = None" "displacements_attr (attrs sof_plugin) = None"
    by (simp_all add: sof_plugin_def)
  have c: "\<forall>f a. cls_calculate_displacements (klass sof_plugin) = Some f \<longrightarrow>
             f [] (attrs sof_plugin) = Inr a \<longrightarrow> process_number a = None"
    using b d by auto
  show ?thesis
    using a b d no_rank_no_persistence [OF a c, of Posix]
    by (auto simp add: world_of_def)
qed

text \<open>
  C1, at a session over an in-memory array. \<^verbatim>\<open>__init__\<close> accepts the array and keeps it
  as \<^verbatim>\<open>cih_file\<close>. With a rank-0 plugin bound and points set,
  \<^verbatim>\<open>get_displacements(autosave=True)\<close> computes, then \<^verbatim>\<open>create_analysis_directory\<close>
  hands the array to \<^verbatim>\<open>os.path.split\<close>, which raises \<^verbatim>\<open>TypeError\<close>: no directory is
  created, nothing is saved, and \<^verbatim>\<open>clear_temp_files\<close> is not called, on either platform.
\<close>

theorem array_session_autosave_fails:
  "method_bound array_lk_session = Some lk_plugin
   \<and> process_number (attrs lk_plugin) = Some 0
   \<and> fst (get_displacements pl True [] (world_of array_lk_session))
        = Inl (TypeError ''expected str, bytes or os.PathLike object, not ndarray'')
   \<and> files (snd (get_displacements pl True [] (world_of array_lk_session))) = []
   \<and> plugin_log (snd (get_displacements pl True [] (world_of array_lk_session)))
        = [CalculateDisplacements []]"
  by (simp add: array_lk_session_eq get_displacements_def call_calculate_displacements_def
      world_of_def lk_plugin_def stub_class_def autosave_run_def create_analysis_directory_def
      array_session_def)

section \<open>Versioned run directories\<close>

text \<open>
  C2, on a POSIX system. For \<^verbatim>\<open>video.cih\<close> in an empty working directory the first
  call of \<^verbatim>\<open>create_analysis_directory\<close> creates the analysis root and
  \<^verbatim>\<open>analysis_001\<close>. The second call finds \<^verbatim>\<open>video_pyidi_analysis/analysis_001/\<close>, splits
  it at backslashes, of which it has none, and raises \<^verbatim>\<open>IndexError\<close> at index \<open>-2\<close>:
  no second run directory is created.
\<close>

theorem posix_second_run_fails:
  "fst (create_analysis_directory Posix (world_of file_session)) = Inr ()
   \<and> files (runs Posix 1 (world_of file_session))
        = [(''video_pyidi_analysis'', Dir), (''video_pyidi_analysis/analysis_001'', Dir)]
   \<and> fst (create_analysis_directory Posix (runs Posix 1 (world_of file_session)))
        = Inl (IndexError ''index out of range'')
   \<and> files (runs Posix 2 (world_of file_session))
        = [(''video_pyidi_analysis'', Dir), (''video_pyidi_analysis/analysis_001'', Dir)]"
  by code_simp

text \<open>Where the separator is the backslash, the same three calls give runs 1, 2 and 3.\<close>

lemma windows_three_runs:
  "fst (create_analysis_directory Windows (world_of file_session)) = Inr ()
   \<and> fst (create_analysis_directory Windows (runs Windows 1 (world_of file_session))) = Inr ()
   \<and> fst (create_analysis_directory Windows (runs Windows 2 (world_of file_session))) = Inr ()
   \<and> files (runs Windows 3 (world_of file_session))
        = [(''video_pyidi_analysis'', Dir),
           (''video_pyidi_analysis'' @ [backslash] @ ''analysis_001'', Dir),
           (''video_pyidi_analysis'' @ [backslash] @ ''analysis_002'', Dir),
           (''video_pyidi_analysis'' @ [backslash] @ ''analysis_003'', Dir)]"
  by code_simp

section \<open>Persisting a run\<close>

lemma stale_session_eq:
  "stale_session = file_lk_session\<lparr>method_name := Some ''sof''\<rparr>"
  by (simp add: stale_session_def set_method_def file_lk_session_eq file_session_def
      registry_example instantiate_def stub_class_def)

text \<open>
  C6, after a failed rebinding. The session is bound to \<^verbatim>\<open>'lk'\<close>; then
  \<^verbatim>\<open>set_method('sof', foo=1)\<close> raises in the constructor, after \<^verbatim>\<open>method_name\<close>
  was assigned. The bound plugin is still the instance of the registry's \<^verbatim>\<open>'lk'\<close> class,
  and the next \<^verbatim>\<open>get_displacements(autosave=True)\<close> succeeds and writes a
  \<^verbatim>\<open>settings.txt\<close> whose \<^verbatim>\<open>method\<close> is \<^verbatim>\<open>'sof'\<close>.
\<close>

theorem stale_method_name_saved:
  "fst (set_method (MethodName ''sof'') [(''foo'', JInt 1)] file_lk_session)
        = Inl (TypeError ''configure() got an unexpected keyword argument'')
   \<and> method_bound stale_session = Some lk_plugin
   \<and> map_of (available_methods stale_session) ''lk''
        = Some \<lparr>IDIMethod = klass lk_plugin, description = ''A stub method.''\<rparr>
   \<and> fst (get_displacements Posix True [] (world_of stale_session)) = Inr zeros
   \<and> map_of (files (snd (get_displacements Posix True [] (world_of stale_session))))
        ''video_pyidi_analysis/analysis_001/settings.txt''
      = Some (File (JsonDump True 2 (JDict
          [(''info'', JDict [(''Total Frame'', JInt 50), (''Image Width'', JInt 64),
                             (''Image Height'', JInt 64)]),
           (''createdate'', JStr ''2020 01 01    00:00:00''),
           (''cih_file'', JStr ''video.cih''),
           (''settings'', JDict []),
           (''method'', JStr ''sof'')])))"
proof -
  have a: "fst (set_method (MethodName ''sof'') [(''foo'', JInt 1)] file_lk_session)
        = Inl (TypeError ''configure() got an unexpected keyword argument'')"
    by code_simp
  have b: "method_bound stale_session = Some lk_plugin"
    and c: "map_of (available_methods stale_session) ''lk''
        = Some \<lparr>IDIMethod = klass lk_plugin, description = ''A stub method.''\<rparr>"
    by (simp_all add: stale_session_eq file_lk_session_eq file_session_def registry_example
        lk_plugin_def)
  have d: "fst (get_displacements Posix True [] (world_of stale_session)) = Inr zeros"
    by code_simp
  have e: "map_of (files (snd (get_displacements Posix True [] (world_of stale_session))))
        ''video_pyidi_analysis/analysis_001/settings.txt''
      = Some (File (JsonDump True 2 (JDict
          [(''info'', JDict [(''Total Frame'', JInt 50), (''Image Width'', JInt 64),
                             (''Image Height'', JInt 64)]),
           (''createdate'', JStr ''2020 01 01    00:00:00''),
           (''cih_file'', JStr ''video.cih''),
           (''settings'', JDict []),
           (''method'', JStr ''sof'')])))"
    by code_simp
  show ?thesis using a b c d e by simp
qed

section \<open>What a successful run leaves\<close>

text \<open>Writing a file changes the entry at its path and no other.\<close>

lemma map_of_put_file:
  "map_of (put_file p c fs) q = (if q = p then Some (File c) else map_of fs q)"
  by (induction fs) auto

lemma put_file_twice: "put_file p c2 (put_file p c1 fs) = put_file p c2 fs"
  by (induction fs) auto

lemma write_file_Inr: "write_file pl p c fs = Inr fs' \<Longrightarrow> fs' = put_file p c fs"
  by (auto simp add: write_file_def split: option.splits node.splits)

lemma json_dump_file_Inr:
  "json_dump_file pl p v fs = (Inr u, fs') \<Longrightarrow>
     fs' = put_file p (JsonDump True 2 v) fs \<and> serializable v"
  by (auto simp add: json_dump_file_def put_file_twice split: sum.splits if_splits
      dest!: write_file_Inr)

lemma settings_out_keys:
  "map fst (settings_out s now settings mname)
     = [''info'', ''createdate'', ''cih_file'', ''settings'', ''method'']"
  by (simp add: settings_out_def)

lemma settings_out_method:
  "map_of (settings_out s now settings mname) ''method'' = Some (JStr mname)"
  by (simp add: settings_out_def)

lemma call_create_settings_dict_Inr:
  "call_create_settings_dict w = (Inr st, w') \<Longrightarrow>
     w' = w\<lparr>plugin_log := plugin_log w @ [CreateSettingsDict]\<rparr>"
  by (auto simp add: call_create_settings_dict_def split: option.splits)

text \<open>
  A \<^verbatim>\<open>save\<close> that returns has written, in this order, \<^verbatim>\<open>results.pkl\<close> with the
  displacements, \<^verbatim>\<open>points.pkl\<close> with the points and \<^verbatim>\<open>settings.txt\<close> with the dump
  (sorted keys, indent 2) of the dictionary whose keys \<open>settings_out_keys\<close> lists and
  whose \<^verbatim>\<open>method\<close> is the session's \<^verbatim>\<open>method_name\<close>; it has changed no other file and
  nothing of the session.
\<close>

lemma save_writes_three:
  assumes "save pl rt w = (Inr u, w')"
  shows "\<exists>d pts settings mname.
      displacements (sess w) = Some d \<and> points (sess w) = Some pts
    \<and> method_name (sess w) = Some mname
    \<and> files w' =
        put_file (path_join pl rt ''settings.txt'')
          (JsonDump True 2 (JDict (settings_out (sess w) (clock w) settings mname)))
          (put_file (path_join pl rt ''points.pkl'') (Pickled (PointsObj pts))
            (put_file (path_join pl rt ''results.pkl'') (Pickled (ArrayObj d)) (files w)))
    \<and> sess w' = sess w \<and> clock w' = clock w
    \<and> plugin_log w' = plugin_log w @ [CreateSettingsDict]"
  using assms
  by (auto simp add: save_def Let_def split: option.splits sum.splits prod.splits
      dest!: write_file_Inr json_dump_file_Inr call_create_settings_dict_Inr)

text \<open>
  A \<^verbatim>\<open>create_analysis_directory\<close> that returns has added the analysis root if it was
  missing and exactly one run directory, which did not exist before.
\<close>

lemma mkdir_Inr: "mkdir pl p fs = Inr fs' \<Longrightarrow> fs' = fs @ [(p, Dir)] \<and> \<not> path_exists fs p"
  by (auto simp add: mkdir_def split: if_splits option.splits)

lemma ensure_dir_Inr: "ensure_dir pl p fs = Inr fs1 \<Longrightarrow> fs1 = with_root fs p"
  by (cases "path_exists fs p") (auto simp add: ensure_dir_def with_root_def dest: mkdir_Inr)

lemma create_analysis_directory_Inr:
  assumes ok: "create_analysis_directory pl w = (Inr u, w')"
  shows "\<exists>ra n nnn.
      last_index (glob_analyses pl (with_root (files w) ra) ra) = Inr n
    \<and> format_index (n + 1) = Inr nnn
    \<and> \<not> path_exists (with_root (files w) ra) (run_path pl ra nnn)
    \<and> w' = w\<lparr>sess := (sess w)\<lparr>root_analysis := Some ra,
                  root_this_analysis := Some (run_path pl ra nnn)\<rparr>,
             files := with_root (files w) ra @ [(run_path pl ra nnn, Dir)]\<rparr>"
proof -
  from ok obtain ra fs1 n nnn fs2 where
    e1: "ensure_dir pl ra (files w) = Inr fs1"
    and n: "last_index (glob_analyses pl fs1 ra) = Inr n"
    and nnn: "format_index (n + 1) = Inr nnn"
    and e2: "mkdir pl (run_path pl ra nnn) fs1 = Inr fs2"
    and w': "w' = w\<lparr>sess := (sess w)\<lparr>root_analysis := Some ra,
                  root_this_analysis := Some (run_path pl ra nnn)\<rparr>, files := fs2\<rparr>"
    unfolding run_path_def
    by (simp add: create_analysis_directory_def Let_def split: source.splits sum.splits)
  have fs1: "fs1 = with_root (files w) ra"
    using ensure_dir_Inr [OF e1] .
  show ?thesis
    apply (rule exI [of _ ra], rule exI [of _ n], rule exI [of _ nnn])
    using n nnn mkdir_Inr [OF e2] unfolding fs1 w'
    by simp
qed

lemma call_clear_temp_files_Inr:
  "call_clear_temp_files w = (Inr u, w') \<Longrightarrow>
     \<exists>m f a. method_bound (sess w) = Some m \<and> cls_clear_temp_files (klass m) = Some f
       \<and> f (attrs m) = Inr a
       \<and> w' = w\<lparr>sess := (sess w)\<lparr>method_bound := Some (m\<lparr>attrs := a\<rparr>)\<rparr>,
                plugin_log := plugin_log w @ [ClearTempFiles]\<rparr>"
  by (auto simp add: call_clear_temp_files_def Let_def split: option.splits sum.splits)

lemma autosave_run_Inr:
  assumes "autosave_run pl w = (Inr u, w')"
  shows "\<exists>ra nnn d pts settings mname.
      displacements (sess w) = Some d \<and> points (sess w) = Some pts
    \<and> method_name (sess w) = Some mname
    \<and> \<not> path_exists (with_root (files w) ra) (run_path pl ra nnn)
    \<and> files w' =
        put_file (path_join pl (run_path pl ra nnn) ''settings.txt'')
          (JsonDump True 2 (JDict (settings_out (sess w) (clock w) settings mname)))
          (put_file (path_join pl (run_path pl ra nnn) ''points.pkl'') (Pickled (PointsObj pts))
            (put_file (path_join pl (run_path pl ra nnn) ''results.pkl'') (Pickled (ArrayObj d))
               (with_root (files w) ra @ [(run_path pl ra nnn, Dir)])))
    \<and> sess w' = (sess w)\<lparr>root_analysis := Some ra,
                  root_this_analysis := Some (run_path pl ra nnn)\<rparr>
    \<and> clock w' = clock w
    \<and> plugin_log w' = plugin_log w @ [CreateSettingsDict]"
proof -
  from assms obtain w1 rta where
    c: "create_analysis_directory pl w = (Inr (), w1)"
    and r: "root_this_analysis (sess w1) = Some rta"
    and s: "save pl rta w1 = (Inr u, w')"
    by (auto simp add: autosave_run_def split: prod.splits sum.splits option.splits)
  from create_analysis_directory_Inr [OF c] obtain ra nnn where
    ne: "\<not> path_exists (with_root (files w) ra) (run_path pl ra nnn)"
    and w1: "w1 = w\<lparr>sess := (sess w)\<lparr>root_analysis := Some ra,
                  root_this_analysis := Some (run_path pl ra nnn)\<rparr>,
             files := with_root (files w) ra @ [(run_path pl ra nnn, Dir)]\<rparr>"
    by blast
  have rta: "rta = run_path pl ra nnn"
    using r w1 by simp
  from save_writes_three [OF s] obtain d pts settings mname where
    d: "displacements (sess w1) = Some d" and p: "points (sess w1) = Some pts"
    and mn: "method_name (sess w1) = Some mname"
    and f: "files w' =
        put_file (path_join pl rta ''settings.txt'')
          (JsonDump True 2 (JDict (settings_out (sess w1) (clock w1) settings mname)))
          (put_file (path_join pl rta ''points.pkl'') (Pickled (PointsObj pts))
            (put_file (path_join pl rta ''results.pkl'') (Pickled (ArrayObj d)) (files w1)))"
    and rest: "sess w' = sess w1" "clock w' = clock w1"
      "plugin_log w' = plugin_log w1 @ [CreateSettingsDict]"
    by blast
  have so: "settings_out (sess w1) (clock w1) settings mname
              = settings_out (sess w) (clock w) settings mname"
    by (simp add: w1 settings_out_def)
  show ?thesis
    apply (rule exI [of _ ra], rule exI [of _ nnn], rule exI [of _ d], rule exI [of _ pts],
        rule exI [of _ settings], rule exI [of _ mname])
    using d p mn f rest ne unfolding so rta
    by (simp add: w1)
qed

text \<open>
  The rank-0 path of \<^verbatim>\<open>get_displacements(autosave=True)\<close>: when the call returns, it
  returns the computed displacements, one run directory is new, the three artifacts are in
  it, and the plugin was asked, in this order, to compute, to describe its settings and to
  clear its temporary files.
\<close>

lemma rank_zero_autosave:
  assumes bound: "method_bound (sess w) = Some m"
    and calc: "cls_calculate_displacements (klass m) = Some f"
    and res: "f kw (attrs m) = Inr a"
    and disp: "displacements_attr a = Some d"
    and rank: "process_number a = Some 0"
    and ok: "get_displacements pl True kw w = (Inr r, w')"
  shows "r = d \<and> (\<exists>ra nnn pts settings mname.
      points (sess w) = Some pts \<and> method_name (sess w) = Some mname
    \<and> \<not> path_exists (with_root (files w) ra) (run_path pl ra nnn)
    \<and> files w' =
        put_file (path_join pl (run_path pl ra nnn) ''settings.txt'')
          (JsonDump True 2 (JDict (settings_out (sess w) (clock w) settings mname)))
          (put_file (path_join pl (run_path pl ra nnn) ''points.pkl'') (Pickled (PointsObj pts))
            (put_file (path_join pl (run_path pl ra nnn) ''results.pkl'') (Pickled (ArrayObj d))
               (with_root (files w) ra @ [(run_path pl ra nnn, Dir)])))
    \<and> plugin_log w' = plugin_log w @ [CalculateDisplacements kw, CreateSettingsDict, ClearTempFiles])"
proof -
  define w2 where "w2 = w\<lparr>plugin_log := plugin_log w @ [CalculateDisplacements kw],
      sess := (sess w)\<lparr>method_bound := Some (m\<lparr>attrs := a\<rparr>), displacements := Some d\<rparr>\<rparr>"
  have step: "get_displacements pl True kw w =
      (case autosave_run pl w2 of
         (Inl e, w3) \<Rightarrow> (Inl e, w3)
       | (Inr u, w3) \<Rightarrow>
           (case call_clear_temp_files w3 of
              (Inl e, w4) \<Rightarrow> (Inl e, w4)
            | (Inr u, w4) \<Rightarrow> return_displacements w4))"
    using bound calc res disp rank
    by (simp add: get_displacements_def call_calculate_displacements_def w2_def)
  from ok step obtain w3 w4 where
    a3: "autosave_run pl w2 = (Inr (), w3)"
    and a4: "call_clear_temp_files w3 = (Inr (), w4)"
    and a5: "return_displacements w4 = (Inr r, w')"
    by (auto split: prod.splits sum.splits)
  from autosave_run_Inr [OF a3] obtain ra nnn d2 pts settings mname where
    h: "displacements (sess w2) = Some d2" "points (sess w2) = Some pts"
      "method_name (sess w2) = Some mname"
      "\<not> path_exists (with_root (files w2) ra) (run_path pl ra nnn)"
      "files w3 =
        put_file (path_join pl (run_path pl ra nnn) ''settings.txt'')
          (JsonDump True 2 (JDict (settings_out (sess w2) (clock w2) settings mname)))
          (put_file (path_join pl (run_path pl ra nnn) ''points.pkl'') (Pickled (PointsObj pts))
            (put_file (path_join pl (run_path pl ra nnn) ''results.pkl'') (Pickled (ArrayObj d2))
               (with_root (files w2) ra @ [(run_path pl ra nnn, Dir)])))"
      "sess w3 = (sess w2)\<lparr>root_analysis := Some ra,
                  root_this_analysis := Some (run_path pl ra nnn)\<rparr>"
      "plugin_log w3 = plugin_log w2 @ [CreateSettingsDict]"
    by blast
  have d2: "d2 = d" using h(1) by (simp add: w2_def)
  have so: "settings_out (sess w2) (clock w2) settings mname
              = settings_out (sess w) (clock w) settings mname"
    by (simp add: w2_def settings_out_def)
  from call_clear_temp_files_Inr [OF a4] obtain m3 a' where
    w4: "w4 = w3\<lparr>sess := (sess w3)\<lparr>method_bound := Some (m3\<lparr>attrs := a'\<rparr>)\<rparr>,
                plugin_log := plugin_log w3 @ [ClearTempFiles]\<rparr>"
    by blast
  have dw4: "displacements (sess w4) = Some d"
    by (simp add: w4 h(6) w2_def)
  from a5 dw4 have r: "r = d" and w': "w' = w4"
    by (simp_all add: return_displacements_def)
  show ?thesis
    apply (rule conjI [OF r])
    apply (rule exI [of _ ra], rule exI [of _ nnn], rule exI [of _ pts],
        rule exI [of _ settings], rule exI [of _ mname])
    using h(2-5) h(7) unfolding so d2 w' w4
    by (simp add: w2_def)
qed

section \<open>Further evaluations\<close>

text \<open>On a POSIX system the first autosave of a file-backed session leaves the run
  directory with its three files; the second fails in the versioner.\<close>

lemma first_autosave_files:
  "files (snd (get_displacements Posix True [] (world_of file_lk_session)))
    = [(''video_pyidi_analysis'', Dir), (''video_pyidi_analysis/analysis_001'', Dir),
       (''video_pyidi_analysis/analysis_001/results.pkl'', File (Pickled (ArrayObj zeros))),
       (''video_pyidi_analysis/analysis_001/points.pkl'', File (Pickled (PointsObj two_points))),
       (''video_pyidi_analysis/analysis_001/settings.txt'', File (JsonDump True 2 (JDict
          [(''info'', JDict [(''Total Frame'', JInt 50), (''Image Width'', JInt 64),
                             (''Image Height'', JInt 64)]),
           (''createdate'', JStr ''2020 01 01    00:00:00''),
           (''cih_file'', JStr ''video.cih''),
           (''settings'', JDict []),
           (''method'', JStr ''lk'')])))]
   \<and> plugin_log (snd (get_displacements Posix True [] (world_of file_lk_session)))
    = [CalculateDisplacements [], CreateSettingsDict, ClearTempFiles]"
  by code_simp

lemma posix_second_autosave_fails:
  "fst (get_displacements Posix True [] (world_of file_lk_session)) = Inr zeros
   \<and> fst (get_displacements Posix True []
        (snd (get_displacements Posix True [] (world_of file_lk_session))))
     = Inl (IndexError ''index out of range'')"
  by code_simp

text \<open>
  The next index is read from the name that sorts last. With runs 999 and 1000 in place
  that name is \<^verbatim>\<open>analysis_999\<close>, and the call fails on the existing
  \<^verbatim>\<open>analysis_1000\<close>; next to \<^verbatim>\<open>analysis_010\<close>, a run named \<^verbatim>\<open>analysis_2\<close> sorts last and
  the new run is \<^verbatim>\<open>analysis_003\<close>.
\<close>

lemma windows_lexicographic_last:
  "fst (create_analysis_directory Windows (windows_world [''analysis_999'', ''analysis_1000'']))
     = Inl (FileExistsError (''video_pyidi_analysis'' @ [backslash] @ ''analysis_1000''))
   \<and> fst (create_analysis_directory Windows (windows_world [''analysis_2'', ''analysis_010''])) = Inr ()
   \<and> root_this_analysis (sess (snd (create_analysis_directory Windows
          (windows_world [''analysis_2'', ''analysis_010'']))))
     = Some (''video_pyidi_analysis'' @ [backslash] @ ''analysis_003'')"
  by code_simp

text \<open>With the ROI box requested and no method bound, the callback raises in
  \<^verbatim>\<open>view_ROI\<close>, before its last line: the selected points stay assigned, empty or not.\<close>

lemma selection_raises_without_method:
  "selected_points g h v ov vw = Inr pts \<Longrightarrow> method_bound s = None \<Longrightarrow>
   widget_grid g h v ov True s vw
     = (Inl (AttributeError ''method''), s\<lparr>points := Some pts\<rparr>, vw\<lparr>roi_box := None\<rparr>)"
  by (simp add: widget_grid_def view_ROI_def)

section \<open>The index read from the existing run directories\<close>

lemma split_on_absent: "c \<notin> set s \<Longrightarrow> split_on c s = [s]"
  by (induction s) auto

lemma split_on_not_Nil: "split_on c s \<noteq> []"
  by (induction s) (auto split: list.splits)

lemma split_on_append: "split_on c (xs @ c # ys) = split_on c xs @ split_on c ys"
  by (induction xs) (auto simp add: split_on_not_Nil split: list.splits)

lemma sort_not_Nil: "xs \<noteq> [] \<Longrightarrow> sort xs \<noteq> []"
  by (metis length_0_conv length_sort)

lemma item_last: "xs \<noteq> [] \<Longrightarrow> item xs (- 1) = Inr (last xs)"
  by (cases xs rule: rev_cases) (auto simp add: item_def nth_append)

lemma item_last_but_one: "item (xs @ [a, b]) (- 2) = Inr a"
  by (simp add: item_def nth_append)

lemma item_singleton_minus2: "item [x] (- 2) = Inl (IndexError ''index out of range'')"
  by (simp add: item_def)

lemma last_sort_in_set: "xs \<noteq> [] \<Longrightarrow> last (sort xs) \<in> set xs"
  by (metis last_in_set set_sort sort_not_Nil)

lemma last_index_without_backslash:
  assumes "analyses \<noteq> []" and "\<forall>s \<in> set analyses. backslash \<notin> set s"
  shows "last_index analyses = Inl (IndexError ''index out of range'')"
proof -
  have ne: "sort analyses \<noteq> []" using assms(1) by (rule sort_not_Nil)
  have "backslash \<notin> set (last (sort analyses))"
    using assms last_sort_in_set by blast
  then have "split_on backslash (last (sort analyses)) = [last (sort analyses)]"
    by (rule split_on_absent)
  then show ?thesis
    using assms(1) by (simp add: last_index_def item_last [OF ne] item_singleton_minus2)
qed

text \<open>Where the path of the last run directory ends in backslash, name, backslash, the
  index is read from what follows the last underscore of the name.\<close>

lemma last_index_with_backslash:
  assumes ne: "analyses \<noteq> []"
    and last: "last (sort analyses) = pre @ backslash # name @ [backslash]"
    and nm: "backslash \<notin> set name"
  shows "last_index analyses =
     (case item (split_on CHR ''_'' name) (- 1) of Inl e \<Rightarrow> Inl e | Inr suffix \<Rightarrow> py_int suffix)"
proof -
  have ne': "sort analyses \<noteq> []" using ne by (rule sort_not_Nil)
  have "split_on backslash (pre @ backslash # name @ [backslash])
          = split_on backslash pre @ [name, []]"
    using nm by (simp add: split_on_append split_on_absent)
  then show ?thesis
    using ne by (simp add: last_index_def item_last [OF ne'] last item_last_but_one)
qed


lemma nat_digits_are_digits: "c \<in> set (nat_digits n) \<Longrightarrow> is_digit c"
proof (induction n rule: nat_digits.induct)
  case (1 n)
  show ?case
  proof (cases "n < 10")
    case True
    then have "nat_digits n = [char_of (of_char CHR ''0'' + n)]"
      by (simp add: nat_digits.simps)
    with 1(2) True show ?thesis
      by (auto simp add: is_digit_def less_eq_char_def)
  next
    case False
    then have eq: "nat_digits n = nat_digits (n div 10) @ [char_of (of_char CHR ''0'' + n mod 10)]"
      by (subst nat_digits.simps) simp
    have "n mod 10 < 10" by simp
    then have "is_digit (char_of (of_char CHR ''0'' + n mod 10))"
      by (auto simp add: is_digit_def less_eq_char_def)
    with 1 False eq show ?thesis by auto
  qed
qed

lemma format_index_chars:
  assumes "format_index v = Inr s" and "c \<in> set s"
  shows "is_digit c \<or> c = CHR ''-''"
proof -
  have z: "is_digit CHR ''0''" by (simp add: is_digit_def)
  show ?thesis
    using assms nat_digits_are_digits z
    by (auto simp add: format_index_def Let_def split: option.splits if_splits)
qed

lemma format_index_no_sep:
  assumes "format_index v = Inr s"
  shows "\<not> is_sep Posix c \<or> c \<notin> set s"
  using format_index_chars [OF assms, of c]
  by (auto simp add: is_sep_def is_digit_def less_eq_char_def)


lemma create_analysis_directory_steps:
  assumes ok: "create_analysis_directory pl w = (Inr u, w')"
  shows "\<exists>p c ra n nnn.
      cih_file (sess w) = SrcStr p
    \<and> item (split_on CHR ''.'' (snd (path_split pl p))) 0 = Inr c
    \<and> ra = path_join pl (root (sess w)) (c @ ''_pyidi_analysis'')
    \<and> last_index (glob_analyses pl (with_root (files w) ra) ra) = Inr n
    \<and> format_index (n + 1) = Inr nnn
    \<and> \<not> path_exists (with_root (files w) ra) (run_path pl ra nnn)
    \<and> w' = w\<lparr>sess := (sess w)\<lparr>root_analysis := Some ra,
                  root_this_analysis := Some (run_path pl ra nnn)\<rparr>,
             files := with_root (files w) ra @ [(run_path pl ra nnn, Dir)]\<rparr>"
proof -
  from ok obtain p c fs1 n nnn fs2 where
    p: "cih_file (sess w) = SrcStr p"
    and c: "item (split_on CHR ''.'' (snd (path_split pl p))) 0 = Inr c"
    and e1: "ensure_dir pl (path_join pl (root (sess w)) (c @ ''_pyidi_analysis'')) (files w) = Inr fs1"
    and n: "last_index (glob_analyses pl fs1 (path_join pl (root (sess w)) (c @ ''_pyidi_analysis''))) = Inr n"
    and nnn: "format_index (n + 1) = Inr nnn"
    and e2: "mkdir pl (run_path pl (path_join pl (root (sess w)) (c @ ''_pyidi_analysis'')) nnn) fs1 = Inr fs2"
    and w': "w' = w\<lparr>sess := (sess w)\<lparr>root_analysis := Some (path_join pl (root (sess w)) (c @ ''_pyidi_analysis'')),
                  root_this_analysis := Some (run_path pl (path_join pl (root (sess w)) (c @ ''_pyidi_analysis'')) nnn)\<rparr>,
               files := fs2\<rparr>"
    unfolding run_path_def
    by (simp add: create_analysis_directory_def Let_def split: source.splits sum.splits)
  define ra where "ra = path_join pl (root (sess w)) (c @ ''_pyidi_analysis'')"
  have fs1: "fs1 = with_root (files w) ra"
    using ensure_dir_Inr [OF e1] by (simp add: ra_def)
  show ?thesis
    apply (rule exI [of _ p], rule exI [of _ c], rule exI [of _ ra], rule exI [of _ n],
        rule exI [of _ nnn])
    using p c n nnn mkdir_Inr [OF e2] unfolding w' ra_def [symmetric] fs1
    by simp
qed

lemma path_exists_with_root: "path_exists (with_root fs ra @ rest) ra"
  by (auto simp add: with_root_def path_exists_def map_of_eq_None_iff image_Un)

lemma takeWhile_rev_append:
  assumes "\<forall>c \<in> set b. P c" and "a = [] \<or> \<not> P (last a)"
  shows "takeWhile P (rev b @ rev a) = rev b"
proof (cases a rule: rev_cases)
  case Nil
  then show ?thesis using assms(1) by (simp add: takeWhile_eq_all_conv)
next
  case (snoc ys y)
  then have ny: "\<not> P y" using assms(2) by simp
  have "takeWhile P (rev b @ y # rev ys) = rev b @ takeWhile P (y # rev ys)"
    by (rule takeWhile_append2) (use assms(1) in auto)
  then show ?thesis using ny snoc by simp
qed

lemma path_split_tail:
  assumes "\<forall>c \<in> set b. \<not> is_sep pl c" and "a = [] \<or> is_sep pl (last a)"
  shows "snd (path_split pl (a @ b)) = b"
  using takeWhile_rev_append [of b "\<lambda>c. \<not> is_sep pl c" a] assms
  by (simp add: path_split_def Let_def)

lemma path_join_tail:
  assumes "b \<noteq> []" and "\<forall>c \<in> set b. \<not> is_sep pl c"
  shows "snd (path_split pl (path_join pl a b)) = b"
    and "path_join pl a b \<noteq> []"
    and "last (path_join pl a b) = last b"
proof -
  have hd: "\<not> is_sep pl (hd b)" using assms by (cases b) auto
  have sep: "is_sep pl (os_sep pl)" by (cases pl) (simp_all add: is_sep_def os_sep_def)
  show "snd (path_split pl (path_join pl a b)) = b"
  proof (cases "a = [] \<or> is_sep pl (last a)")
    case True
    then show ?thesis
      using hd path_split_tail [OF assms(2) True] by (simp add: path_join_def)
  next
    case False
    have "snd (path_split pl ((a @ [os_sep pl]) @ b)) = b"
      by (rule path_split_tail [OF assms(2)]) (simp add: sep)
    then show ?thesis using hd False by (simp add: path_join_def)
  qed
  show "path_join pl a b \<noteq> []" using assms(1) by (simp add: path_join_def)
  show "last (path_join pl a b) = last b" using assms(1) by (simp add: path_join_def)
qed


lemma run_name_no_sep:
  assumes "format_index v = Inr nnn"
  shows "\<forall>c \<in> set (''analysis_'' @ nnn). \<not> is_sep Posix c"
  using format_index_no_sep [OF assms] by (auto simp add: is_sep_def)

lemma glob_has_run:
  assumes mem: "(run_path Posix ra nnn, Dir) \<in> set fs" and fmt: "format_index v = Inr nnn"
  shows "glob_analyses Posix fs ra \<noteq> []"
proof -
  define name where "name = ''analysis_'' @ nnn"
  have ns: "\<forall>c \<in> set name. \<not> is_sep Posix c"
    unfolding name_def by (rule run_name_no_sep [OF fmt])
  have ne: "name \<noteq> []" by (simp add: name_def)
  have rp: "run_path Posix ra nnn = path_join Posix ra name"
    by (simp add: run_path_def name_def)
  note t = path_join_tail [OF ne ns, of ra]
  have l: "\<not> is_sep Posix (last (path_join Posix ra name))"
    unfolding t(3) using ns ne by simp
  have m: "matches_analysis Posix name" by (simp add: matches_analysis_def name_def)
  have "(path_join Posix ra name, Dir) \<in> set (filter (\<lambda>(p, n). n = Dir \<and> p \<noteq> [] \<and> \<not> is_sep Posix (last p)
                  \<and> p = path_join Posix ra (snd (path_split Posix p))
                  \<and> matches_analysis Posix (snd (path_split Posix p))) fs)"
    using mem l m t(2) unfolding rp by (simp add: t(1))
  then have "filter (\<lambda>(p, n). n = Dir \<and> p \<noteq> [] \<and> \<not> is_sep Posix (last p)
                  \<and> p = path_join Posix ra (snd (path_split Posix p))
                  \<and> matches_analysis Posix (snd (path_split Posix p))) fs \<noteq> []"
    by (cases "filter (\<lambda>(p, n). n = Dir \<and> p \<noteq> [] \<and> \<not> is_sep Posix (last p)
                  \<and> p = path_join Posix ra (snd (path_split Posix p))
                  \<and> matches_analysis Posix (snd (path_split Posix p))) fs") simp_all
  then show ?thesis
    by (simp add: glob_analyses_def)
qed

lemma glob_no_backslash:
  assumes "\<forall>q \<in> fst ` set fs. backslash \<notin> set q"
  shows "\<forall>s \<in> set (glob_analyses Posix fs d). backslash \<notin> set s"
  using assms
  by (auto simp add: glob_analyses_def path_join_def os_sep_def backslash_def)

text \<open>
  On a POSIX system no run follows a run: after a call of \<^verbatim>\<open>create_analysis_directory\<close>
  that returned, and as long as no path in the file system contains a backslash, the next
  call raises \<^verbatim>\<open>IndexError\<close>, because the run directory just created is found and its
  path is split at backslashes.
\<close>

lemma posix_run_after_run_fails:
  assumes ok: "create_analysis_directory Posix w = (Inr u, w1)"
    and nb: "\<forall>q \<in> fst ` set (files w1). backslash \<notin> set q"
  shows "fst (create_analysis_directory Posix w1) = Inl (IndexError ''index out of range'')"
proof -
  from create_analysis_directory_steps [OF ok] obtain p c ra n nnn where
    p: "cih_file (sess w) = SrcStr p"
    and c: "item (split_on CHR ''.'' (snd (path_split Posix p))) 0 = Inr c"
    and ra: "ra = path_join Posix (root (sess w)) (c @ ''_pyidi_analysis'')"
    and nnn: "format_index (n + 1) = Inr nnn"
    and w1: "w1 = w\<lparr>sess := (sess w)\<lparr>root_analysis := Some ra,
                  root_this_analysis := Some (run_path Posix ra nnn)\<rparr>,
             files := with_root (files w) ra @ [(run_path Posix ra nnn, Dir)]\<rparr>"
    by blast
  have p1: "cih_file (sess w1) = SrcStr p" and r1: "root (sess w1) = root (sess w)"
    using p by (simp_all add: w1)
  have ex: "path_exists (files w1) ra"
    by (simp add: w1 path_exists_with_root)
  have e1: "ensure_dir Posix ra (files w1) = Inr (files w1)"
    using ex by (simp add: ensure_dir_def)
  have "(run_path Posix ra nnn, Dir) \<in> set (files w1)"
    by (simp add: w1)
  then have g: "glob_analyses Posix (files w1) ra \<noteq> []"
    using nnn by (rule glob_has_run)
  have li: "last_index (glob_analyses Posix (files w1) ra) = Inl (IndexError ''index out of range'')"
    using g glob_no_backslash [OF nb] by (rule last_index_without_backslash)
  show ?thesis
    by (simp add: create_analysis_directory_def p1 c r1 ra [symmetric] e1 li Let_def)
qed

end
